theory Spec2Isabelle
  imports Main
begin

section \<open>Python strings\<close>

text \<open>
  A Python \<^verbatim>\<open>str\<close> is modelled as a \<^typ>\<open>string\<close>, each \<^typ>\<open>char\<close> read as one code
  point in the range U+0000..U+00FF. On this range \<^verbatim>\<open>str.lower\<close>, \<^verbatim>\<open>str.strip\<close> and
  \<^verbatim>\<open>str.replace\<close> act character by character as defined below; code points beyond
  U+00FF are outside the model.
\<close>

abbreviation sq :: char where "sq \<equiv> CHR 0x27"
abbreviation dq :: char where "dq \<equiv> CHR 0x22"
abbreviation tab :: char where "tab \<equiv> CHR 0x09"

text \<open>\<^verbatim>\<open>str.lower()\<close>: A-Z and the Latin-1 capitals (U+00C0..U+00DE without U+00D7) move
  up by 32; every other code point stays.\<close>

definition lower_char :: "char \<Rightarrow> char" where
  "lower_char c =
     (let n = (of_char c :: nat) in
      if (65 \<le> n \<and> n \<le> 90) \<or> (192 \<le> n \<and> n \<le> 214) \<or> (216 \<le> n \<and> n \<le> 222)
      then char_of (n + 32) else c)"

definition lower :: "string \<Rightarrow> string" where
  "lower s = map lower_char s"

text \<open>\<^verbatim>\<open>str.isspace()\<close> on one character: U+0009..U+000D, U+001C..U+0020, U+0085, U+00A0.\<close>

definition isspace :: "char \<Rightarrow> bool" where
  "isspace c =
     (let n = (of_char c :: nat) in
      (9 \<le> n \<and> n \<le> 13) \<or> (28 \<le> n \<and> n \<le> 32) \<or> n = 133 \<or> n = 160)"

text \<open>\<^verbatim>\<open>str.strip()\<close>: leading and trailing whitespace removed.\<close>

definition strip :: "string \<Rightarrow> string" where
  "strip s = rev (dropWhile isspace (rev (dropWhile isspace s)))"

text \<open>\<^verbatim>\<open>s.replace(a, b)\<close> for one-character \<^verbatim>\<open>a\<close> and \<^verbatim>\<open>b\<close>.\<close>

definition replace_char :: "char \<Rightarrow> char \<Rightarrow> string \<Rightarrow> string" where
  "replace_char a b s = map (\<lambda>c. if c = a then b else c) s"

text \<open>Decimal digits of a natural number, most significant first.\<close>

definition digit_char :: "nat \<Rightarrow> char" where
  "digit_char d = ''0123456789'' ! d"

fun digits :: "nat \<Rightarrow> string" where
  "digits n = (if n < 10 then [digit_char n] else digits (n div 10) @ [digit_char (n mod 10)])"

declare digits.simps [simp del]

text \<open>\<^verbatim>\<open>str(n)\<close>, which is also \<^verbatim>\<open>f"{n}"\<close>, for a Python int.\<close>

definition str_int :: "int \<Rightarrow> string" where
  "str_int n = (if n < 0 then CHR ''-'' # digits (nat (- n)) else digits (nat n))"

definition zfill :: "nat \<Rightarrow> string \<Rightarrow> string" where
  "zfill width s = replicate (width - length s) CHR ''0'' @ s"

text \<open>\<^verbatim>\<open>f"{n:02d}"\<close>: zero fill to a minimum width of two, the sign counted in the width
  and written before the fill.\<close>

definition format_02d :: "int \<Rightarrow> string" where
  "format_02d n =
     (if n < 0 then CHR ''-'' # zfill 1 (digits (nat (- n))) else zfill 2 (digits (nat n)))"

text \<open>\<^verbatim>\<open>repr\<close> of a string of plain characters (no quote, backslash or unprintable
  character), as the keys of the content type table are; and \<^verbatim>\<open>str\<close> of a list of such
  strings.\<close>

definition repr_plain :: "string \<Rightarrow> string" where
  "repr_plain s = sq # s @ [sq]"

fun join_comma :: "string list \<Rightarrow> string" where
  "join_comma [] = []"
| "join_comma [x] = x"
| "join_comma (x # y # ys) = x @ '', '' @ join_comma (y # ys)"

definition str_list :: "string list \<Rightarrow> string" where
  "str_list xs = ''['' @ join_comma (map repr_plain xs) @ '']''"

text \<open>\<^verbatim>\<open>os.path.join(a, b)\<close> of \<^verbatim>\<open>posixpath\<close>, for two components.\<close>

definition path_join :: "string \<Rightarrow> string \<Rightarrow> string" where
  "path_join a b =
     (if b \<noteq> [] \<and> hd b = CHR ''/'' then b
      else if a = [] \<or> last a = CHR ''/'' then a @ b
      else a @ ''/'' @ b)"

section \<open>Process exits\<close>

datatype py_exception =
    EOFError
  | KeyError string
  | FileExistsError string
  | NotADirectoryError string
  | FileNotFoundError string
  | IsADirectoryError string

text \<open>
  How the process can end early: \<^verbatim>\<open>sys.exit(message)\<close> writes the message to standard error
  and exits with status 1; \<^verbatim>\<open>argparse\<close> rejects a value outside \<^verbatim>\<open>choices\<close> with a message
  naming the value and the choices, and exits with status 2; an exception nothing catches
  ends the process with a traceback and status 1.
\<close>

datatype py_exit =
    SystemExit string
  | ArgparseInvalidChoice string "string list"
  | Uncaught py_exception

fun exit_code :: "py_exit + unit \<Rightarrow> nat" where
  "exit_code (Inr _) = 0"
| "exit_code (Inl (SystemExit _)) = 1"
| "exit_code (Inl (ArgparseInvalidChoice _ _)) = 2"
| "exit_code (Inl (Uncaught _)) = 1"

section \<open>The world the script runs in\<close>

text \<open>
  The file system holds directories and regular files under the path names the script
  uses for them, relative to the working directory. Names are compared as written:
  \<^verbatim>\<open>.\<close> and \<^verbatim>\<open>..\<close> components, symbolic links, permissions, length limits and names the
  operating system refuses (a NUL character) are outside the model.
\<close>

record filesystem =
  dirs :: "string set"
  files :: "string \<Rightarrow> string option"

record datetime =
  dt_year :: nat
  dt_month :: nat
  dt_day :: nat

text \<open>
  \<open>stdin\<close> holds the lines still to be read, \<open>stdout\<close> everything written so far,
  \<open>clock\<close> the successive readings of \<^verbatim>\<open>datetime.now()\<close> and \<open>ticks\<close> how many were taken.
\<close>

record world =
  fs :: filesystem
  stdin :: "string list"
  stdout :: string
  clock :: "nat \<Rightarrow> datetime"
  ticks :: nat

text \<open>\<^verbatim>\<open>os.path.exists\<close>: true of a directory and of a regular file.\<close>

definition path_exists :: "filesystem \<Rightarrow> string \<Rightarrow> bool" where
  "path_exists f p = (p \<in> dirs f \<or> files f p \<noteq> None)"

text \<open>The proper ancestors of a path: its prefixes that end before a separator. A path is
  \<open>blocked\<close> when one of them is a regular file.\<close>

definition ancestors :: "string \<Rightarrow> string list" where
  "ancestors p = map (\<lambda>i. take i p) (filter (\<lambda>i. p ! i = CHR ''/'') [1..<length p])"

definition blocked :: "filesystem \<Rightarrow> string \<Rightarrow> bool" where
  "blocked f p = list_ex (\<lambda>a. files f a \<noteq> None) (ancestors p)"

text \<open>
  \<^verbatim>\<open>os.makedirs(name, exist_ok=True)\<close>: creates the directory and the ancestors it lacks;
  an existing directory is left as it is; a regular file in the way raises.
\<close>

definition makedirs :: "string \<Rightarrow> filesystem \<Rightarrow> py_exception + filesystem" where
  "makedirs name f =
     (if blocked f name then Inl (NotADirectoryError name)
      else if files f name \<noteq> None then Inl (FileExistsError name)
      else Inr (f\<lparr>dirs := dirs f \<union> set (ancestors name) \<union> {name}\<rparr>))"

text \<open>
  \<^verbatim>\<open>with open(name, "w") as f: f.write(content)\<close>: the file is created or truncated, and
  holds exactly \<open>content\<close> afterwards.
\<close>

definition open_w :: "string \<Rightarrow> string \<Rightarrow> filesystem \<Rightarrow> py_exception + filesystem" where
  "open_w name content f =
     (if blocked f name then Inl (NotADirectoryError name)
      else if list_ex (\<lambda>a. a \<notin> dirs f) (ancestors name) then Inl (FileNotFoundError name)
      else if name \<in> dirs f then Inl (IsADirectoryError name)
      else Inr (f\<lparr>files := (files f)(name \<mapsto> content)\<rparr>))"

text \<open>\<^verbatim>\<open>input(prompt)\<close>: the prompt goes to standard output, one line is read; at end of
  input \<^verbatim>\<open>EOFError\<close> is raised.\<close>

definition py_input :: "string \<Rightarrow> world \<Rightarrow> (py_exit + string) \<times> world" where
  "py_input prompt w =
     (case stdin w of
        [] \<Rightarrow> (Inl (Uncaught EOFError), w\<lparr>stdout := stdout w @ prompt\<rparr>)
      | l # ls \<Rightarrow> (Inr l, w\<lparr>stdin := ls, stdout := stdout w @ prompt\<rparr>))"

definition py_print :: "string \<Rightarrow> world \<Rightarrow> world" where
  "py_print s w = w\<lparr>stdout := stdout w @ s @ ''\<newline>''\<rparr>"

definition datetime_now :: "world \<Rightarrow> datetime \<times> world" where
  "datetime_now w = (clock w (ticks w), w\<lparr>ticks := Suc (ticks w)\<rparr>)"

text \<open>\<^verbatim>\<open>strftime("%Y-%m-%d")\<close>. The year is written without padding, which is the four-digit
  form for the years 1000 to 9999.\<close>

definition strftime_Ymd :: "datetime \<Rightarrow> string" where
  "strftime_Ymd d =
     digits (dt_year d) @ ''-'' @ zfill 2 (digits (dt_month d)) @ ''-'' @ zfill 2 (digits (dt_day d))"

section \<open>new\_content.py\<close>

subsection \<open>init\_content\<close>

text \<open>The local variables \<^verbatim>\<open>base_dir\<close>, \<^verbatim>\<open>dir_name\<close>, \<^verbatim>\<open>dir_path\<close>, \<^verbatim>\<open>index_file_path\<close>,
  \<^verbatim>\<open>slug\<close> and \<^verbatim>\<open>frontmatter\<close> of \<^verbatim>\<open>init_content\<close>, as functions of what they are computed
  from; \<open>d\<close> is the table's entry \<^verbatim>\<open>content_types_to_dir[content_type]\<close>.\<close>

definition base_dir :: "string \<Rightarrow> string" where
  "base_dir d = ''content/'' @ d"

definition dir_name :: "string \<Rightarrow> int \<Rightarrow> int \<Rightarrow> string" where
  "dir_name title year month =
     lower (str_int year @ ''_'' @ format_02d month @ ''_'' @ replace_char CHR '' '' CHR ''_'' title)"

definition dir_path :: "string \<Rightarrow> string \<Rightarrow> int \<Rightarrow> int \<Rightarrow> string" where
  "dir_path d title year month = path_join (base_dir d) (dir_name title year month)"

definition index_file_path :: "string \<Rightarrow> string \<Rightarrow> int \<Rightarrow> int \<Rightarrow> string" where
  "index_file_path d title year month = path_join (dir_path d title year month) ''index.md''"

definition slug :: "string \<Rightarrow> string" where
  "slug title = lower (replace_char CHR '' '' CHR ''-'' title)"

definition frontmatter :: "string \<Rightarrow> string \<Rightarrow> string \<Rightarrow> string \<Rightarrow> string" where
  "frontmatter title date content_type slug_text =
     ''+++\<newline>'' @
     ''title = '' @ [dq] @ title @ [dq] @ ''\<newline>'' @
     ''date = '' @ [dq] @ date @ [dq] @ ''\<newline>'' @
     ''summary = '' @ [dq, dq] @ ''\<newline>'' @
     ''tags = []\<newline>'' @
     ''type = '' @ [dq] @ content_type @ [dq] @ ''\<newline>'' @
     ''toc = false\<newline>'' @
     ''readTime = true\<newline>'' @
     ''autonumber = false\<newline>'' @
     ''showTags = true\<newline>'' @
     ''slug = '' @ [dq] @ slug_text @ [dq] @ ''\<newline>'' @
     ''+++\<newline>'' @
     ''\<newline>''"

definition init_content ::
  "string \<Rightarrow> int \<Rightarrow> int \<Rightarrow> string \<Rightarrow> (string \<times> string) list \<Rightarrow> world \<Rightarrow> (py_exit + unit) \<times> world"
where
  "init_content title year month content_type content_types_to_dir w =
     (case map_of content_types_to_dir content_type of
        None \<Rightarrow> (Inl (Uncaught (KeyError content_type)), w)
      | Some d \<Rightarrow>
          if \<not> path_exists (fs w) (base_dir d) then
            (Inl (SystemExit (''Error: directory '' @ [sq] @ base_dir d @ [sq] @ '' does not exist'')), w)
          else
            (case makedirs (dir_path d title year month) (fs w) of
               Inl e \<Rightarrow> (Inl (Uncaught e), w)
             | Inr f1 \<Rightarrow>
                 let (now, w1) = datetime_now (w\<lparr>fs := f1\<rparr>);
                     date = strftime_Ymd now
                 in
                 (case open_w (index_file_path d title year month)
                         (frontmatter title date content_type (slug title)) (fs w1) of
                    Inl e \<Rightarrow> (Inl (Uncaught e), w1)
                  | Inr f2 \<Rightarrow>
                      (Inr (),
                       py_print (tab # ''path:'' @ tab # index_file_path d title year month)
                         (py_print (tab # ''slug:'' @ tab # slug title)
                           (py_print (tab # ''dir:'' @ tab # dir_name title year month)
                             (py_print (tab # ''title:'' @ tab # title)
                               (py_print (''New '' @ content_type @ '' created'')
                                 (w1\<lparr>fs := f2\<rparr>)))))))))"

text \<open>What the five \<^verbatim>\<open>print\<close> calls at the end of \<^verbatim>\<open>init_content\<close> write, as one text.\<close>

definition report :: "string \<Rightarrow> string \<Rightarrow> string \<Rightarrow> int \<Rightarrow> int \<Rightarrow> string" where
  "report content_type d title year month =
     ''New '' @ content_type @ '' created\<newline>'' @
     tab # ''title:'' @ tab # title @ ''\<newline>'' @
     tab # ''dir:'' @ tab # dir_name title year month @ ''\<newline>'' @
     tab # ''slug:'' @ tab # slug title @ ''\<newline>'' @
     tab # ''path:'' @ tab # index_file_path d title year month @ ''\<newline>''"

text \<open>The world after a run of \<^verbatim>\<open>init_content\<close> that went through: the entry directory is
  there, the index file holds the frontmatter, the report is printed and the clock was
  read once.\<close>

definition created :: "string \<Rightarrow> string \<Rightarrow> string \<Rightarrow> int \<Rightarrow> int \<Rightarrow> world \<Rightarrow> world" where
  "created ct d t y m w =
     w\<lparr>fs := (fs w)
          \<lparr>dirs := dirs (fs w) \<union> set (ancestors (dir_path d t y m)) \<union> {dir_path d t y m},
           files := (files (fs w))
             (index_file_path d t y m \<mapsto> frontmatter t (strftime_Ymd (clock w (ticks w))) ct (slug t))\<rparr>,
        stdout := stdout w @ report ct d t y m,
        ticks := Suc (ticks w)\<rparr>"

text \<open>Nothing is in the way of the entry: no regular file where the entry directory or one
  of its ancestors has to be, and no directory where the index file has to be.\<close>

definition entry_free :: "filesystem \<Rightarrow> string \<Rightarrow> string \<Rightarrow> int \<Rightarrow> int \<Rightarrow> bool" where
  "entry_free f d title year month \<longleftrightarrow>
     \<not> blocked f (dir_path d title year month) \<and>
     files f (dir_path d title year month) = None \<and>
     index_file_path d title year month \<notin> dirs f"

subsection \<open>main\<close>

definition content_types_to_dir :: "(string \<times> string) list" where
  "content_types_to_dir = [(''post'', ''posts''), (''note'', ''notes'')]"

definition content_types :: "string list" where
  "content_types = map fst content_types_to_dir"

text \<open>The values \<^verbatim>\<open>argparse\<close> hands over: \<open>None\<close> for a flag that was not given.\<close>

record args =
  arg_title :: "string option"
  arg_type :: "string option"
  arg_year :: "int option"
  arg_month :: "int option"

text \<open>Of \<^verbatim>\<open>parser.parse_args()\<close> the model keeps the \<^verbatim>\<open>choices\<close> check on \<^verbatim>\<open>--type\<close>; the
  conversion of \<^verbatim>\<open>--year\<close> and \<^verbatim>\<open>--month\<close> to integers is taken as done.\<close>

definition parse_args :: "string list \<Rightarrow> args \<Rightarrow> py_exit + args" where
  "parse_args choices a =
     (case arg_type a of
        None \<Rightarrow> Inr a
      | Some t \<Rightarrow> if t \<in> set choices then Inr a else Inl (ArgparseInvalidChoice t choices))"

text \<open>\<^verbatim>\<open>x or input(prompt)\<close>: \<open>None\<close> and the empty string are false.\<close>

definition or_input :: "string option \<Rightarrow> string \<Rightarrow> world \<Rightarrow> (py_exit + string) \<times> world" where
  "or_input x prompt w =
     (case x of
        None \<Rightarrow> py_input prompt w
      | Some s \<Rightarrow> if s = [] then py_input prompt w else (Inr s, w))"

text \<open>\<^verbatim>\<open>x or y\<close> for an optional int \<open>x\<close>: \<open>None\<close> and zero are false.\<close>

definition int_or :: "int option \<Rightarrow> int \<Rightarrow> int" where
  "int_or x y = (case x of None \<Rightarrow> y | Some n \<Rightarrow> if n = 0 then y else n)"

definition main :: "args \<Rightarrow> world \<Rightarrow> (py_exit + unit) \<times> world" where
  "main argv w =
     (case parse_args content_types argv of
        Inl e \<Rightarrow> (Inl e, w)
      | Inr a \<Rightarrow>
          (case or_input (arg_title a) ''Enter working title: '' w of
             (Inl e, w1) \<Rightarrow> (Inl e, w1)
           | (Inr raw, w1) \<Rightarrow>
               let title = strip raw in
               if title = [] then (Inl (SystemExit ''Error: empty title''), w1)
               else
                 (case or_input (arg_type a) ''Enter content type(post/note): '' w1 of
                    (Inl e, w2) \<Rightarrow> (Inl e, w2)
                  | (Inr content_type, w2) \<Rightarrow>
                      if content_type \<notin> set content_types then
                        (Inl (SystemExit
                           (''Error: invalid content type, should be one of: '' @ str_list content_types)),
                         w2)
                      else
                        let (now, w3) = datetime_now w2;
                            year = int_or (arg_year a) (int (dt_year now));
                            month = int_or (arg_month a) (int (dt_month now))
                        in init_content title year month content_type content_types_to_dir w3)))"

section \<open>Reading a quoted string back\<close>

text \<open>
  The frontmatter is a block of \<^verbatim>\<open>key = value\<close> lines whose strings stand in double quotes.
  A reader of such a string, as the basic strings of TOML and the strings of JSON are read:
  the body runs to the first double quote that no backslash escapes, and a backslash
  together with the character after it stands for one character, which the table \<open>esc\<close>
  gives. \<open>unescape\<close> reads a body; it fails on a bare double quote, on a backslash at the
  end and on an escape the table does not know. \<open>unquote\<close> reads a whole quoted string.
\<close>

abbreviation backslash :: char where "backslash \<equiv> CHR 0x5C"

fun unescape :: "(char \<Rightarrow> char option) \<Rightarrow> string \<Rightarrow> string option" where
  "unescape esc [] = Some []"
| "unescape esc [c] = (if c = dq \<or> c = backslash then None else Some [c])"
| "unescape esc (c # e # cs) =
     (if c = dq then None
      else if c = backslash then
        (case esc e of
           None \<Rightarrow> None
         | Some v \<Rightarrow> map_option ((#) v) (unescape esc cs))
      else map_option ((#) c) (unescape esc (e # cs)))"

definition unquote :: "(char \<Rightarrow> char option) \<Rightarrow> string \<Rightarrow> string option" where
  "unquote esc s =
     (case s of
        [] \<Rightarrow> None
      | c # cs \<Rightarrow>
          if c = dq \<and> cs \<noteq> [] \<and> last cs = dq then unescape esc (butlast cs) else None)"

text \<open>The one-character escapes of a TOML basic string.\<close>

definition toml_esc :: "char \<Rightarrow> char option" where
  "toml_esc e =
     (if e = CHR ''b'' then Some (CHR 0x08)
      else if e = CHR ''t'' then Some tab
      else if e = CHR ''n'' then Some CHR ''\<newline>''
      else if e = CHR ''f'' then Some (CHR 0x0C)
      else if e = CHR ''r'' then Some (CHR 0x0D)
      else if e = dq then Some dq
      else if e = backslash then Some backslash
      else None)"

section \<open>Example runs\<close>

text \<open>
  A content tree with the directory for posts and none for notes, a clock that reads
  2026-11-04, and the command line
  \<^verbatim>\<open>--title "My Post" --type post --year 2024 --month 3\<close>.
\<close>

definition example_clock :: "nat \<Rightarrow> datetime" where
  "example_clock n = \<lparr>dt_year = 2026, dt_month = 11, dt_day = 4\<rparr>"

definition example_fs :: filesystem where
  "example_fs = \<lparr>dirs = {''content'', ''content/posts''}, files = Map.empty\<rparr>"

definition example_world :: world where
  "example_world =
     \<lparr>fs = example_fs, stdin = [], stdout = [], clock = example_clock, ticks = 0\<rparr>"

definition example_args :: args where
  "example_args =
     \<lparr>arg_title = Some ''My Post'', arg_type = Some ''post'',
      arg_year = Some 2024, arg_month = Some 3\<rparr>"

text \<open>A title with double quotes in it: \<^verbatim>\<open>Say "hi"\<close>.\<close>

definition example_quoted_title :: string where
  "example_quoted_title = ''Say '' @ [dq] @ ''hi'' @ [dq]"

section \<open>Facts about the string functions\<close>

lemma digit_char_in: "d < 10 \<Longrightarrow> digit_char d \<in> set ''0123456789''"
  unfolding digit_char_def by (rule nth_mem) simp

lemma set_digits: "set (digits n) \<subseteq> set ''0123456789''"
proof (induction n rule: digits.induct)
  case (1 n)
  show ?case
  proof (cases "n < 10")
    case True
    then show ?thesis using digit_char_in[of n] by (subst digits.simps) simp
  next
    case False
    then show ?thesis using 1 digit_char_in[of "n mod 10"] by (subst digits.simps) simp
  qed
qed

lemma digits_nonempty: "digits n \<noteq> []"
  by (subst digits.simps) simp

lemma lower_char_digit: "c \<in> set ''0123456789'' \<Longrightarrow> lower_char c = c"
  by (auto simp: lower_char_def)

lemma lower_digits: "lower (digits n) = digits n"
  unfolding lower_def by (rule map_idI) (use set_digits lower_char_digit in blast)

lemma lower_append: "lower (a @ b) = lower a @ lower b"
  by (simp add: lower_def)

lemma lower_Cons: "lower (c # s) = lower_char c # lower s"
  by (simp add: lower_def)

lemma lower_replicate: "lower (replicate k c) = replicate k (lower_char c)"
  by (simp add: lower_def)

lemma lower_char_minus: "lower_char CHR ''-'' = CHR ''-''"
  by code_simp

lemma lower_char_zero: "lower_char CHR ''0'' = CHR ''0''"
  by code_simp

lemma lower_char_underscore: "lower_char CHR ''_'' = CHR ''_''"
  by code_simp

lemma lower_str_int: "lower (str_int n) = str_int n"
  by (simp add: str_int_def lower_Cons lower_digits lower_char_minus)

lemma lower_format_02d: "lower (format_02d n) = format_02d n"
  by (simp add: format_02d_def zfill_def lower_Cons lower_append lower_replicate lower_digits
      lower_char_minus lower_char_zero)

lemma dir_name_eq:
  "dir_name title year month =
     str_int year @ ''_'' @ format_02d month @ ''_'' @ lower (replace_char CHR '' '' CHR ''_'' title)"
  by (simp add: dir_name_def lower_append lower_Cons lower_str_int lower_format_02d lower_char_underscore)

text \<open>A string strips to nothing exactly when it is all whitespace.\<close>

lemma strip_empty_iff: "strip s = [] \<longleftrightarrow> (\<forall>c\<in>set s. isspace c)"
proof -
  have "strip s = [] \<longleftrightarrow> (\<forall>c\<in>set (dropWhile isspace s). isspace c)"
    by (simp add: strip_def dropWhile_eq_Nil_conv)
  also have "\<dots> \<longleftrightarrow> dropWhile isspace s = []"
    by (metis dropWhile_eq_Nil_conv dropWhile_idem)
  also have "\<dots> \<longleftrightarrow> (\<forall>c\<in>set s. isspace c)"
    by (simp add: dropWhile_eq_Nil_conv)
  finally show ?thesis .
qed


section \<open>Facts about paths\<close>

lemma ancestors_length: "a \<in> set (ancestors p) \<Longrightarrow> length a < length p"
  by (auto simp: ancestors_def)

lemma ancestors_snoc:
  "ancestors (p @ [c]) = ancestors p @ (if c = CHR ''/'' \<and> p \<noteq> [] then [p] else [])"
proof -
  have f: "filter (\<lambda>i. (p @ [c]) ! i = CHR ''/'') [1..<length p] =
           filter (\<lambda>i. p ! i = CHR ''/'') [1..<length p]"
    by (rule filter_cong) (auto simp: nth_append)
  have m: "map (\<lambda>i. take i (p @ [c])) (filter (\<lambda>i. p ! i = CHR ''/'') [1..<length p]) =
           map (\<lambda>i. take i p) (filter (\<lambda>i. p ! i = CHR ''/'') [1..<length p])"
    by (rule map_cong) auto
  show ?thesis
  proof (cases "p = []")
    case True
    then show ?thesis by (simp add: ancestors_def)
  next
    case False
    then have "[1..<length (p @ [c])] = [1..<length p] @ [length p]"
      by (simp add: Suc_leI)
    then show ?thesis
      using False f m by (simp add: ancestors_def)
  qed
qed

lemma ancestors_append_plain:
  "CHR ''/'' \<notin> set s \<Longrightarrow> ancestors (p @ s) = ancestors p"
proof (induction s rule: rev_induct)
  case Nil
  then show ?case by simp
next
  case (snoc c s)
  then show ?case
    using ancestors_snoc[of "p @ s" c] by auto
qed

lemma path_join_index:
  "p \<noteq> [] \<Longrightarrow>
   path_join p ''index.md'' = (if last p = CHR ''/'' then p @ ''index.md'' else (p @ ''/'') @ ''index.md'')"
  by (simp add: path_join_def)

lemma ancestors_index:
  assumes "p \<noteq> []"
  shows "set (ancestors (path_join p ''index.md'')) \<subseteq> insert p (set (ancestors p))"
proof -
  have plain: "CHR ''/'' \<notin> set ''index.md''" by simp
  show ?thesis
    unfolding path_join_index[OF assms]
    using ancestors_append_plain[OF plain, of p] ancestors_append_plain[OF plain, of "p @ ''/''"]
      ancestors_snoc[of p "CHR ''/''"] assms
    by (auto split: if_splits)
qed

lemma length_index: "p \<noteq> [] \<Longrightarrow> length p < length (path_join p ''index.md'')"
  by (simp add: path_join_index)

lemma str_int_hd: "str_int n \<noteq> [] \<and> hd (str_int n) \<noteq> CHR ''/''"
proof -
  have d: "digits k \<noteq> [] \<and> hd (digits k) \<noteq> CHR ''/''" for k
  proof -
    have "digits k \<noteq> []" by (rule digits_nonempty)
    moreover from this have "hd (digits k) \<in> set ''0123456789''"
      using set_digits[of k] hd_in_set by blast
    ultimately show ?thesis by auto
  qed
  show ?thesis using d by (simp add: str_int_def)
qed

lemma dir_name_hd: "dir_name t y m \<noteq> [] \<and> hd (dir_name t y m) \<noteq> CHR ''/''"
  using str_int_hd[of y] by (simp add: dir_name_eq)

lemma dir_path_eq:
  "d \<noteq> [] \<Longrightarrow> last d \<noteq> CHR ''/'' \<Longrightarrow>
   dir_path d t y m = ''content/'' @ d @ ''/'' @ dir_name t y m"
  using dir_name_hd[of t y m] by (simp add: dir_path_def base_dir_def path_join_def)

lemma content_types_to_dir_cases:
  "map_of content_types_to_dir ct = Some d \<longleftrightarrow>
     (ct = ''post'' \<and> d = ''posts'') \<or> (ct = ''note'' \<and> d = ''notes'')"
  by (auto simp: content_types_to_dir_def)

lemma content_types_set: "set content_types = {''post'', ''note''}"
  by (auto simp: content_types_def content_types_to_dir_def)

lemma str_list_content_types:
  "str_list content_types = [CHR ''['', sq] @ ''post'' @ [sq] @ '', '' @ [sq] @ ''note'' @ [sq, CHR '']'']"
  by (simp add: str_list_def content_types_def content_types_to_dir_def repr_plain_def)


section \<open>Running init\_content\<close>

lemma blocked_iff: "blocked f p \<longleftrightarrow> (\<exists>a\<in>set (ancestors p). files f a \<noteq> None)"
  by (simp add: blocked_def list_ex_iff)

lemma makedirs_Inr_iff:
  "makedirs p f = Inr f1 \<longleftrightarrow>
     \<not> blocked f p \<and> files f p = None \<and> f1 = f\<lparr>dirs := dirs f \<union> set (ancestors p) \<union> {p}\<rparr>"
  by (auto simp: makedirs_def)

lemma open_after_makedirs:
  assumes "p \<noteq> []" and "makedirs p f = Inr f1"
  shows "open_w (path_join p ''index.md'') c f1 =
          (if path_join p ''index.md'' \<in> dirs f
           then Inl (IsADirectoryError (path_join p ''index.md''))
           else Inr (f1\<lparr>files := (files f)(path_join p ''index.md'' \<mapsto> c)\<rparr>))"
proof -
  let ?ip = "path_join p ''index.md''"
  from assms(2) have nb: "\<not> blocked f p" and nf: "files f p = None"
    and f1: "f1 = f\<lparr>dirs := dirs f \<union> set (ancestors p) \<union> {p}\<rparr>"
    by (simp_all add: makedirs_Inr_iff)
  have anc: "set (ancestors ?ip) \<subseteq> insert p (set (ancestors p))"
    by (rule ancestors_index[OF assms(1)])
  have "\<not> blocked f1 ?ip"
    using anc nb nf f1 by (auto simp: blocked_iff)
  moreover have "\<not> list_ex (\<lambda>a. a \<notin> dirs f1) (ancestors ?ip)"
    using anc f1 by (auto simp: list_ex_iff)
  moreover have "?ip \<in> dirs f1 \<longleftrightarrow> ?ip \<in> dirs f"
    using length_index[OF assms(1)] ancestors_length[of ?ip p] f1 by auto
  moreover have "files f1 = files f"
    using f1 by simp
  ultimately show ?thesis
    by (simp add: open_w_def)
qed

lemma path_join_nonempty: "b \<noteq> [] \<Longrightarrow> path_join a b \<noteq> []"
  by (simp add: path_join_def)

lemma dir_path_nonempty: "dir_path d t y m \<noteq> []"
  using dir_name_hd[of t y m] by (simp add: dir_path_def path_join_nonempty)

text \<open>When \<^verbatim>\<open>init_content\<close> goes through, and what it leaves then.\<close>

lemma init_content_Inr_iff:
  assumes "map_of tbl ct = Some d"
  shows "init_content t y m ct tbl w = (Inr u, w') \<longleftrightarrow>
     path_exists (fs w) (base_dir d) \<and>
     \<not> blocked (fs w) (dir_path d t y m) \<and>
     files (fs w) (dir_path d t y m) = None \<and>
     index_file_path d t y m \<notin> dirs (fs w) \<and>
     w' = created ct d t y m w"
proof -
  let ?p = "dir_path d t y m"
  have ne: "?p \<noteq> []" by (rule dir_path_nonempty)
  show ?thesis
  proof (cases "makedirs ?p (fs w)")
    case (Inl e)
    then have "\<not> (\<not> blocked (fs w) ?p \<and> files (fs w) ?p = None)"
      by (auto simp: makedirs_def split: if_splits)
    then show ?thesis
      using assms Inl by (auto simp: init_content_def Let_def)
  next
    case (Inr f1)
    note o = open_after_makedirs[OF ne Inr, folded index_file_path_def]
    from Inr have f1: "\<not> blocked (fs w) ?p" "files (fs w) ?p = None"
      "f1 = (fs w)\<lparr>dirs := dirs (fs w) \<union> set (ancestors ?p) \<union> {?p}\<rparr>"
      by (simp_all add: makedirs_Inr_iff)
    have step: "init_content t y m ct tbl w =
        (if \<not> path_exists (fs w) (base_dir d) then
           (Inl (SystemExit (''Error: directory '' @ [sq] @ base_dir d @ [sq] @ '' does not exist'')), w)
         else if index_file_path d t y m \<in> dirs (fs w) then
           (Inl (Uncaught (IsADirectoryError (index_file_path d t y m))),
            w\<lparr>fs := f1, ticks := Suc (ticks w)\<rparr>)
         else
           (Inr (),
            w\<lparr>fs := f1\<lparr>files := (files (fs w))
                    (index_file_path d t y m \<mapsto>
                       frontmatter t (strftime_Ymd (clock w (ticks w))) ct (slug t))\<rparr>,
              stdout := stdout w @ report ct d t y m,
              ticks := Suc (ticks w)\<rparr>))"
      using assms Inr
      by (simp add: init_content_def Let_def datetime_now_def o py_print_def report_def)
    show ?thesis
      unfolding step using f1 by (auto simp: created_def)
  qed
qed


section \<open>Running main\<close>

lemma py_input_frame:
  "py_input prompt w = (r, w') \<Longrightarrow>
     fs w' = fs w \<and> clock w' = clock w \<and> ticks w' = ticks w \<and> stdout w' = stdout w @ prompt"
  by (auto simp: py_input_def split: list.splits)

lemma or_input_frame:
  "or_input x prompt w = (r, w') \<Longrightarrow> fs w' = fs w \<and> clock w' = clock w \<and> ticks w' = ticks w"
  by (auto simp: or_input_def dest: py_input_frame split: option.splits if_splits)

lemma parse_args_Inr: "parse_args choices a = Inr b \<Longrightarrow> b = a"
  by (auto simp: parse_args_def split: option.splits if_splits)

lemma parse_args_Inr_iff:
  "parse_args choices a = Inr a \<longleftrightarrow> (\<forall>t. arg_type a = Some t \<longrightarrow> t \<in> set choices)"
  by (auto simp: parse_args_def split: option.splits)

text \<open>With a title and a content type that pass the checks, \<^verbatim>\<open>main\<close> is the call of
  \<^verbatim>\<open>init_content\<close>: nothing else is checked on the way.\<close>

lemma main_reaches_init_content:
  assumes "parse_args content_types argv = Inr argv"
    and "or_input (arg_title argv) ''Enter working title: '' w = (Inr raw, w1)"
    and "strip raw \<noteq> []"
    and "or_input (arg_type argv) ''Enter content type(post/note): '' w1 = (Inr ct, w2)"
    and "ct \<in> set content_types"
  shows "main argv w =
     init_content (strip raw)
       (int_or (arg_year argv) (int (dt_year (clock w (ticks w)))))
       (int_or (arg_month argv) (int (dt_month (clock w (ticks w)))))
       ct content_types_to_dir (w2\<lparr>ticks := Suc (ticks w)\<rparr>)"
proof -
  have "clock w2 = clock w" "ticks w2 = ticks w"
    using or_input_frame[OF assms(2)] or_input_frame[OF assms(4)] by simp_all
  then show ?thesis
    using assms by (simp add: main_def Let_def datetime_now_def)
qed

lemma main_Inr_elim:
  assumes "main argv w = (Inr u, w')"
  obtains raw w1 ct w2 where
    "parse_args content_types argv = Inr argv"
    "or_input (arg_title argv) ''Enter working title: '' w = (Inr raw, w1)"
    "strip raw \<noteq> []"
    "or_input (arg_type argv) ''Enter content type(post/note): '' w1 = (Inr ct, w2)"
    "ct \<in> set content_types"
  using assms
  by (auto simp: main_def Let_def split: sum.splits prod.splits if_splits dest: parse_args_Inr)


section \<open>Lower case and replacement; reading quoted strings\<close>

lemma lower_char_space: "lower_char c = CHR '' '' \<longleftrightarrow> c = CHR '' ''"
proof -
  have "(of_char (lower_char c) :: nat) = 32 \<longleftrightarrow> (of_char c :: nat) = 32"
    by (auto simp: lower_char_def Let_def)
  moreover have "(of_char x :: nat) = 32 \<longleftrightarrow> x = CHR '' ''" for x
    using of_char_eq_iff[of x "CHR '' ''", where ?'a = nat] by simp
  ultimately show ?thesis by simp
qed


lemma lower_replace_underscore:
  "lower (replace_char CHR '' '' CHR ''_'' t) = replace_char CHR '' '' CHR ''_'' (lower t)"
  by (simp add: lower_def replace_char_def lower_char_space lower_char_underscore)

lemma unescape_length: "unescape esc s = Some v \<Longrightarrow> length v \<le> length s"
  by (induction esc s arbitrary: v rule: unescape.induct)
    (fastforce split: if_splits option.splits)+

lemma unescape_dq_shorter: "unescape esc s = Some v \<Longrightarrow> dq \<in> set s \<Longrightarrow> length v < length s"
proof (induction esc s arbitrary: v rule: unescape.induct)
  case (1 esc)
  then show ?case by simp
next
  case (2 esc c)
  then show ?case by (auto split: if_splits)
next
  case (3 esc c e cs)
  show ?case
  proof (cases "c = backslash")
    case True
    with 3(3) obtain x v' where "esc e = Some x" "unescape esc cs = Some v'" "v = x # v'"
      by (auto split: option.splits)
    then show ?thesis using unescape_length[of esc cs v'] by simp
  next
    case False
    with 3(3) have c: "c \<noteq> dq" by (auto split: if_splits)
    with False 3(3) obtain v' where v': "unescape esc (e # cs) = Some v'" "v = c # v'"
      by auto
    from 3(4) c have "dq \<in> set (e # cs)" by auto
    from 3(2)[OF c False v'(1) this] v'(2) show ?thesis by simp
  qed
qed

lemma unquote_wrapped: "unquote esc (dq # t @ [dq]) = unescape esc t"
  by (simp add: unquote_def)

text \<open>A text without double quote and backslash reads back as it is.\<close>

lemma unescape_plain:
  "dq \<notin> set t \<Longrightarrow> backslash \<notin> set t \<Longrightarrow> unescape esc t = Some t"
  by (induction esc t rule: unescape.induct) auto

section \<open>The entry directory and the slug\<close>

lemma created_fs:
  "dirs (fs (created ct d t y m w)) = dirs (fs w) \<union> set (ancestors (dir_path d t y m)) \<union> {dir_path d t y m}"
  "files (fs (created ct d t y m w)) =
     (files (fs w))(index_file_path d t y m \<mapsto> frontmatter t (strftime_Ymd (clock w (ticks w))) ct (slug t))"
  "stdout (created ct d t y m w) = stdout w @ report ct d t y m"
  by (simp_all add: created_def)

lemma table_dir_plain: "map_of content_types_to_dir ct = Some d \<Longrightarrow> d \<noteq> [] \<and> last d \<noteq> CHR ''/''"
  by (auto simp: content_types_to_dir_cases)

lemma example_dir_name: "dir_name ''My Post'' 2024 3 = ''2024_03_my_post''"
  by code_simp

lemma example_slug: "slug ''My Post'' = ''my-post''"
  by code_simp

lemma example_strip: "strip ''My Post'' = ''My Post''"
  by code_simp

lemma example_date: "strftime_Ymd (example_clock n) = ''2026-11-04''"
proof -
  have "strftime_Ymd \<lparr>dt_year = 2026, dt_month = 11, dt_day = 4\<rparr> = ''2026-11-04''"
    by code_simp
  then show ?thesis by (simp add: example_clock_def)
qed

lemma example_table: "map_of content_types_to_dir ''post'' = Some ''posts''"
  by (simp add: content_types_to_dir_def)

lemma example_dir_path: "dir_path ''posts'' ''My Post'' 2024 3 = ''content/posts/2024_03_my_post''"
  by (simp add: dir_path_def base_dir_def path_join_def example_dir_name)

lemma example_index_file_path:
  "index_file_path ''posts'' ''My Post'' 2024 3 = ''content/posts/2024_03_my_post/index.md''"
  by (simp add: index_file_path_def example_dir_path path_join_def)

lemma example_ancestors:
  "set (ancestors ''content/posts/2024_03_my_post'') = {''content'', ''content/posts''}"
  by code_simp

lemma example_not_blocked: "\<not> blocked example_fs p"
  by (simp add: blocked_iff example_fs_def)

lemma example_init_content:
  "init_content ''My Post'' 2024 3 ''post'' content_types_to_dir (example_world\<lparr>ticks := k\<rparr>) =
     (Inr (), created ''post'' ''posts'' ''My Post'' 2024 3 (example_world\<lparr>ticks := k\<rparr>))"
  unfolding init_content_Inr_iff[OF example_table]
  by (simp add: example_world_def example_not_blocked example_index_file_path example_dir_path
      path_exists_def base_dir_def, simp add: example_fs_def)

text \<open>
  C1. A run of \<^verbatim>\<open>init_content\<close> that goes through leaves the entry directory
  \<^verbatim>\<open>content/<type dir>/<name>\<close> behind and reports \<^verbatim>\<open><name>\<close>, where \<^verbatim>\<open><name>\<close> is the lower-cased
  text of the year, an underscore, the month in the two-digit format, an underscore, and the
  title with every space replaced by an underscore. Lower-casing changes the title part only.
  For the title \<^verbatim>\<open>My Post\<close>, the year 2024 and the month 3 the name is \<^verbatim>\<open>2024_03_my_post\<close>.
\<close>

theorem entry_directory_name:
  assumes "map_of content_types_to_dir content_type = Some d"
    and "init_content title year month content_type content_types_to_dir w = (Inr u, w')"
  shows "''content/'' @ d @ ''/'' @
           lower (str_int year @ ''_'' @ format_02d month @ ''_'' @ replace_char CHR '' '' CHR ''_'' title)
           \<in> dirs (fs w')
       \<and> stdout w' = stdout w @ report content_type d title year month
       \<and> dir_name title year month =
           str_int year @ ''_'' @ format_02d month @ ''_'' @ replace_char CHR '' '' CHR ''_'' (lower title)"
proof -
  from assms have w': "w' = created content_type d title year month w"
    by (simp add: init_content_Inr_iff)
  have dp: "dir_path d title year month = ''content/'' @ d @ ''/'' @
      lower (str_int year @ ''_'' @ format_02d month @ ''_'' @ replace_char CHR '' '' CHR ''_'' title)"
    using table_dir_plain[OF assms(1)] dir_path_eq[of d title year month]
    unfolding dir_name_def by blast
  have "dir_path d title year month \<in> dirs (fs w')"
    unfolding w' created_fs by simp
  then have c1: "''content/'' @ d @ ''/'' @
      lower (str_int year @ ''_'' @ format_02d month @ ''_'' @ replace_char CHR '' '' CHR ''_'' title)
      \<in> dirs (fs w')"
    unfolding dp .
  have c2: "stdout w' = stdout w @ report content_type d title year month"
    unfolding w' created_fs ..
  have c3: "dir_name title year month =
      str_int year @ ''_'' @ format_02d month @ ''_'' @ replace_char CHR '' '' CHR ''_'' (lower title)"
    by (simp add: dir_name_eq lower_replace_underscore)
  from c1 c2 c3 show ?thesis by (intro conjI)
qed

theorem entry_directory_name_witness:
  "''content/posts/2024_03_my_post''
     \<in> dirs (fs (snd (init_content ''My Post'' 2024 3 ''post'' content_types_to_dir example_world)))
   \<and> dir_name ''My Post'' 2024 3 = ''2024_03_my_post''"
proof -
  have run: "init_content ''My Post'' 2024 3 ''post'' content_types_to_dir example_world =
      (Inr (), snd (init_content ''My Post'' 2024 3 ''post'' content_types_to_dir example_world))"
    using example_init_content[of 0] by (simp add: example_world_def)
  have ev: "lower (str_int 2024 @ ''_'' @ format_02d 3 @ ''_'' @ replace_char CHR '' '' CHR ''_'' ''My Post'') =
      ''2024_03_my_post''"
    by code_simp
  from entry_directory_name[OF example_table run, unfolded ev]
  have "''content/posts/2024_03_my_post''
      \<in> dirs (fs (snd (init_content ''My Post'' 2024 3 ''post'' content_types_to_dir example_world)))"
    by simp
  with example_dir_name show ?thesis by (intro conjI)
qed

lemma example_parse: "parse_args content_types example_args = Inr example_args"
  by (simp add: parse_args_def example_args_def content_types_set)

lemma example_main:
  "main example_args example_world =
     (Inr (), created ''post'' ''posts'' ''My Post'' 2024 3 (example_world\<lparr>ticks := Suc 0\<rparr>))"
proof -
  have t: "or_input (arg_title example_args) ''Enter working title: '' example_world =
      (Inr ''My Post'', example_world)"
    by (simp add: or_input_def example_args_def)
  have c: "or_input (arg_type example_args) ''Enter content type(post/note): '' example_world =
      (Inr ''post'', example_world)"
    by (simp add: or_input_def example_args_def)
  have "main example_args example_world =
      init_content ''My Post'' 2024 3 ''post'' content_types_to_dir (example_world\<lparr>ticks := Suc 0\<rparr>)"
    using main_reaches_init_content[OF example_parse t _ c]
    by (simp add: example_strip content_types_set) (simp add: example_args_def int_or_def example_world_def)
  then show ?thesis
    by (simp only: example_init_content)
qed



section \<open>Exits before anything is written\<close>

lemma main_parse_error:
  "arg_type argv = Some t \<Longrightarrow> t \<notin> set content_types \<Longrightarrow>
   main argv w = (Inl (ArgparseInvalidChoice t content_types), w)"
  by (simp add: main_def parse_args_def)

lemma parse_args_cases:
  "parse_args content_types argv = Inr argv \<or>
   (\<exists>t. arg_type argv = Some t \<and> t \<notin> set content_types)"
  by (auto simp: parse_args_def split: option.splits)

text \<open>
  C3. When the title that comes from \<^verbatim>\<open>--title\<close> or, failing that, from the prompt is empty
  after \<^verbatim>\<open>strip()\<close>, the run ends with a non-zero exit status and the file system is as it
  was: no directory is created and no file is written. Unless \<^verbatim>\<open>argparse\<close> has already
  rejected \<^verbatim>\<open>--type\<close>, the run ends in \<^verbatim>\<open>sys.exit("Error: empty title")\<close>.
\<close>

theorem empty_title_exits:
  assumes "or_input (arg_title argv) ''Enter working title: '' w = (Inr raw, w1)"
    and "strip raw = []"
  shows "exit_code (fst (main argv w)) \<noteq> 0
       \<and> fs (snd (main argv w)) = fs w
       \<and> (parse_args content_types argv = Inr argv \<longrightarrow>
            main argv w = (Inl (SystemExit ''Error: empty title''), w1))"
proof (cases "parse_args content_types argv = Inr argv")
  case True
  then have "main argv w = (Inl (SystemExit ''Error: empty title''), w1)"
    using assms by (simp add: main_def)
  then show ?thesis
    using or_input_frame[OF assms(1)] by simp
next
  case False
  then obtain t where "arg_type argv = Some t" "t \<notin> set content_types"
    using parse_args_cases[of argv] by blast
  then show ?thesis
    using False by (simp add: main_parse_error)
qed

theorem empty_title_exits_witness:
  "exit_code (fst (main (example_args\<lparr>arg_title := Some ''   ''\<rparr>) example_world)) \<noteq> 0
   \<and> fs (snd (main (example_args\<lparr>arg_title := Some ''   ''\<rparr>) example_world)) = fs example_world
   \<and> main (example_args\<lparr>arg_title := Some ''   ''\<rparr>) example_world =
       (Inl (SystemExit ''Error: empty title''), example_world)"
proof -
  have t: "or_input (arg_title (example_args\<lparr>arg_title := Some ''   ''\<rparr>)) ''Enter working title: ''
      example_world = (Inr ''   '', example_world)"
    by (simp add: or_input_def)
  have s: "strip ''   '' = []"
    by code_simp
  have p: "parse_args content_types (example_args\<lparr>arg_title := Some ''   ''\<rparr>) =
      Inr (example_args\<lparr>arg_title := Some ''   ''\<rparr>)"
    by (simp add: parse_args_def example_args_def content_types_set)
  from empty_title_exits[OF t s] p show ?thesis by simp
qed

lemma or_input_None: "or_input None prompt w = py_input prompt w"
  by (simp add: or_input_def)

text \<open>
  C4. A content type outside \<^verbatim>\<open>post\<close> and \<^verbatim>\<open>note\<close> ends the run with a non-zero exit status,
  a message that lists the valid types, and the file system as it was. Given with \<^verbatim>\<open>--type\<close>,
  \<^verbatim>\<open>argparse\<close> rejects it (status 2) naming the choices \<^verbatim>\<open>post\<close> and \<^verbatim>\<open>note\<close>, before anything
  else happens. Typed at the prompt, after a title that is not empty, it ends the run in
  \<^verbatim>\<open>sys.exit\<close> (status 1) with the message
  \<^verbatim>\<open>Error: invalid content type, should be one of: ['post', 'note']\<close>.
\<close>

theorem invalid_content_type_exits:
  "(arg_type argv = Some t \<and> t \<notin> {''post'', ''note''} \<longrightarrow>
      main argv w = (Inl (ArgparseInvalidChoice t [''post'', ''note'']), w)
      \<and> exit_code (fst (main argv w)) = 2)
   \<and> (arg_type argv = None
        \<and> or_input (arg_title argv) ''Enter working title: '' w = (Inr raw, w1)
        \<and> strip raw \<noteq> []
        \<and> py_input ''Enter content type(post/note): '' w1 = (Inr t, w2)
        \<and> t \<notin> {''post'', ''note''} \<longrightarrow>
      main argv w =
        (Inl (SystemExit (''Error: invalid content type, should be one of: '' @
               [CHR ''['', sq] @ ''post'' @ [sq] @ '', '' @ [sq] @ ''note'' @ [sq, CHR '']''])), w2)
      \<and> exit_code (fst (main argv w)) = 1
      \<and> fs (snd (main argv w)) = fs w)"
proof (intro conjI impI)
  assume a: "arg_type argv = Some t \<and> t \<notin> {''post'', ''note''}"
  then have "main argv w = (Inl (ArgparseInvalidChoice t content_types), w)"
    by (simp add: main_parse_error content_types_set)
  moreover have "content_types = [''post'', ''note'']"
    by (simp add: content_types_def content_types_to_dir_def)
  ultimately show m: "main argv w = (Inl (ArgparseInvalidChoice t [''post'', ''note'']), w)"
    by simp
  then show "exit_code (fst (main argv w)) = 2"
    by simp
next
  assume a: "arg_type argv = None
        \<and> or_input (arg_title argv) ''Enter working title: '' w = (Inr raw, w1)
        \<and> strip raw \<noteq> []
        \<and> py_input ''Enter content type(post/note): '' w1 = (Inr t, w2)
        \<and> t \<notin> {''post'', ''note''}"
  then have "main argv w =
      (Inl (SystemExit (''Error: invalid content type, should be one of: '' @ str_list content_types)), w2)"
    by (simp add: main_def parse_args_def or_input_None content_types_set)
  then show m: "main argv w =
        (Inl (SystemExit (''Error: invalid content type, should be one of: '' @
               [CHR ''['', sq] @ ''post'' @ [sq] @ '', '' @ [sq] @ ''note'' @ [sq, CHR '']''])), w2)"
    by (simp only: str_list_content_types)
  then show "exit_code (fst (main argv w)) = 1"
    by simp
  from a have "fs w1 = fs w" "fs w2 = fs w1"
    using or_input_frame[of "arg_title argv" _ w "Inr raw" w1] py_input_frame[of _ w1 "Inr t" w2]
    by blast+
  with m show "fs (snd (main argv w)) = fs w"
    by simp
qed

theorem invalid_content_type_exits_witness:
  "main (example_args\<lparr>arg_type := Some ''invalid''\<rparr>) example_world =
     (Inl (ArgparseInvalidChoice ''invalid'' [''post'', ''note'']), example_world)
   \<and> main (example_args\<lparr>arg_type := None\<rparr>) (example_world\<lparr>stdin := [''invalid'']\<rparr>) =
     (Inl (SystemExit (''Error: invalid content type, should be one of: '' @
            [CHR ''['', sq] @ ''post'' @ [sq] @ '', '' @ [sq] @ ''note'' @ [sq, CHR '']''])),
      example_world\<lparr>stdin := [], stdout := ''Enter content type(post/note): ''\<rparr>)
   \<and> fs (snd (main (example_args\<lparr>arg_type := None\<rparr>) (example_world\<lparr>stdin := [''invalid'']\<rparr>))) =
     fs example_world"
proof -
  have a: "arg_type (example_args\<lparr>arg_type := Some ''invalid''\<rparr>) = Some ''invalid''
      \<and> ''invalid'' \<notin> {''post'', ''note''}"
    by simp
  have b: "arg_type (example_args\<lparr>arg_type := None\<rparr>) = None
      \<and> or_input (arg_title (example_args\<lparr>arg_type := None\<rparr>)) ''Enter working title: ''
          (example_world\<lparr>stdin := [''invalid'']\<rparr>) = (Inr ''My Post'', example_world\<lparr>stdin := [''invalid'']\<rparr>)
      \<and> strip ''My Post'' \<noteq> []
      \<and> py_input ''Enter content type(post/note): '' (example_world\<lparr>stdin := [''invalid'']\<rparr>) =
          (Inr ''invalid'', example_world\<lparr>stdin := [], stdout := ''Enter content type(post/note): ''\<rparr>)
      \<and> ''invalid'' \<notin> {''post'', ''note''}"
    by (simp add: or_input_def example_args_def example_strip py_input_def example_world_def)
  note t1 = invalid_content_type_exits[of "example_args\<lparr>arg_type := Some ''invalid''\<rparr>" "''invalid''"
      example_world, THEN conjunct1, rule_format, OF a]
  note t2 = invalid_content_type_exits[of "example_args\<lparr>arg_type := None\<rparr>" "''invalid''"
      "example_world\<lparr>stdin := [''invalid'']\<rparr>" "''My Post''" "example_world\<lparr>stdin := [''invalid'']\<rparr>"
      "example_world\<lparr>stdin := [], stdout := ''Enter content type(post/note): ''\<rparr>",
      THEN conjunct2, rule_format, OF b]
  from t1 t2 show ?thesis
    by (simp add: example_world_def)
qed

lemma init_content_missing_base_dir:
  "map_of tbl ct = Some d \<Longrightarrow> \<not> path_exists (fs w) (base_dir d) \<Longrightarrow>
   init_content t y m ct tbl w =
     (Inl (SystemExit (''Error: directory '' @ [sq] @ base_dir d @ [sq] @ '' does not exist'')), w)"
  by (simp add: init_content_def)

lemma table_in_content_types: "map_of content_types_to_dir ct = Some d \<Longrightarrow> ct \<in> set content_types"
  by (auto simp: content_types_to_dir_cases content_types_set)

text \<open>
  C5. When the base directory of the content type, \<^verbatim>\<open>content/posts\<close> or \<^verbatim>\<open>content/notes\<close>, does
  not exist, a run that got a title and a content type ends in \<^verbatim>\<open>sys.exit\<close> (status 1) with a
  message that names the missing path, and the file system is as it was: no entry directory
  is created, and the base directory is not created either.
\<close>

theorem missing_base_dir_exits:
  assumes "parse_args content_types argv = Inr argv"
    and "or_input (arg_title argv) ''Enter working title: '' w = (Inr raw, w1)"
    and "strip raw \<noteq> []"
    and "or_input (arg_type argv) ''Enter content type(post/note): '' w1 = (Inr ct, w2)"
    and "map_of content_types_to_dir ct = Some d"
    and "\<not> path_exists (fs w) (''content/'' @ d)"
  shows "fst (main argv w) =
           Inl (SystemExit (''Error: directory '' @ [sq] @ ''content/'' @ d @ [sq] @ '' does not exist''))
       \<and> exit_code (fst (main argv w)) = 1
       \<and> fs (snd (main argv w)) = fs w"
proof -
  let ?w3 = "w2\<lparr>ticks := Suc (ticks w)\<rparr>"
  have fs: "fs ?w3 = fs w"
    using or_input_frame[OF assms(2)] or_input_frame[OF assms(4)] by simp
  have "main argv w =
      (Inl (SystemExit (''Error: directory '' @ [sq] @ base_dir d @ [sq] @ '' does not exist'')), ?w3)"
    unfolding main_reaches_init_content[OF assms(1-4) table_in_content_types[OF assms(5)]]
    using assms(6) fs by (intro init_content_missing_base_dir[OF assms(5)]) (simp add: base_dir_def)
  then show ?thesis
    using fs by (simp add: base_dir_def)
qed

theorem missing_base_dir_exits_witness:
  "fst (main (example_args\<lparr>arg_type := Some ''note''\<rparr>) example_world) =
     Inl (SystemExit (''Error: directory '' @ [sq] @ ''content/notes'' @ [sq] @ '' does not exist''))
   \<and> fs (snd (main (example_args\<lparr>arg_type := Some ''note''\<rparr>) example_world)) = fs example_world"
proof -
  let ?a = "example_args\<lparr>arg_type := Some ''note''\<rparr>"
  have p: "parse_args content_types ?a = Inr ?a"
    by (simp add: parse_args_def content_types_set)
  have t: "or_input (arg_title ?a) ''Enter working title: '' example_world = (Inr ''My Post'', example_world)"
    by (simp add: or_input_def example_args_def)
  have s: "strip ''My Post'' \<noteq> []"
    by (simp add: example_strip)
  have c: "or_input (arg_type ?a) ''Enter content type(post/note): '' example_world =
      (Inr ''note'', example_world)"
    by (simp add: or_input_def)
  have d: "map_of content_types_to_dir ''note'' = Some ''notes''"
    by (simp add: content_types_to_dir_def)
  have e: "\<not> path_exists (fs example_world) (''content/'' @ ''notes'')"
    by (simp add: path_exists_def example_world_def example_fs_def)
  from missing_base_dir_exits[OF p t s c d e] show ?thesis
    by simp
qed

section \<open>Months outside the calendar\<close>

lemma init_content_succeeds:
  assumes "map_of tbl ct = Some d" and "path_exists (fs w) (base_dir d)" and "entry_free (fs w) d t y m"
  shows "init_content t y m ct tbl w = (Inr (), created ct d t y m w)"
  using assms by (simp add: init_content_Inr_iff entry_free_def)

lemma length_digits_ge2: "10 \<le> n \<Longrightarrow> 2 \<le> length (digits n)"
  using digits_nonempty[of "n div 10"]
  by (subst digits.simps) (simp add: Suc_le_eq)

lemma format_02d_out_of_range:
  assumes "m < 0 \<or> 12 < m"
  shows "format_02d m = str_int m"
proof (cases "m < 0")
  case True
  have "1 \<le> length (digits (nat (- m)))"
    using digits_nonempty[of "nat (- m)"] by (simp add: Suc_le_eq)
  with True show ?thesis
    by (simp add: format_02d_def str_int_def zfill_def)
next
  case False
  with assms have "10 \<le> nat m" by simp
  from length_digits_ge2[OF this] False show ?thesis
    by (simp add: format_02d_def str_int_def zfill_def)
qed

lemma example_entry_free: "entry_free example_fs ''posts'' t y m"
proof -
  have "13 < length (dir_path ''posts'' t y m)"
    by (simp add: dir_path_eq)
  then have "13 < length (index_file_path ''posts'' t y m)"
    using length_index[OF dir_path_nonempty, of "''posts''" t y m]
    by (simp add: index_file_path_def)
  then have "index_file_path ''posts'' t y m \<notin> dirs example_fs"
    by (auto simp: example_fs_def)
  then show ?thesis
    by (simp add: entry_free_def example_not_blocked) (simp add: example_fs_def)
qed

lemma example_init_content_any:
  "init_content t y m ''post'' content_types_to_dir (example_world\<lparr>ticks := k\<rparr>) =
     (Inr (), created ''post'' ''posts'' t y m (example_world\<lparr>ticks := k\<rparr>))"
  by (rule init_content_succeeds[OF example_table])
    (simp_all add: example_world_def example_entry_free, simp add: path_exists_def base_dir_def example_fs_def)

lemma example_main_any:
  assumes "parse_args content_types argv = Inr argv"
    and "arg_title argv = Some ''My Post''" and "arg_type argv = Some ''post''"
  shows "main argv example_world =
     (Inr (), created ''post'' ''posts'' ''My Post''
        (int_or (arg_year argv) 2026) (int_or (arg_month argv) 11) (example_world\<lparr>ticks := Suc 0\<rparr>))"
proof -
  have t: "or_input (arg_title argv) ''Enter working title: '' example_world =
      (Inr ''My Post'', example_world)"
    by (simp add: or_input_def assms)
  have c: "or_input (arg_type argv) ''Enter content type(post/note): '' example_world =
      (Inr ''post'', example_world)"
    by (simp add: or_input_def assms)
  have s: "strip ''My Post'' \<noteq> []"
    by (simp add: example_strip)
  have m: "''post'' \<in> set content_types"
    by (simp add: content_types_set)
  have k: "int (dt_year (clock example_world (ticks example_world))) = 2026"
    "int (dt_month (clock example_world (ticks example_world))) = 11"
    "example_world\<lparr>ticks := Suc (ticks example_world)\<rparr> = example_world\<lparr>ticks := Suc 0\<rparr>"
    by (simp_all add: example_world_def example_clock_def)
  show ?thesis
    unfolding main_reaches_init_content[OF assms(1) t s c m] k example_strip
    by (rule example_init_content_any)
qed

lemma example_created_dirs:
  "dirs (fs (created ''post'' ''posts'' t y m (example_world\<lparr>ticks := k\<rparr>))) =
     {''content'', ''content/posts''} \<union> set (ancestors (''content/posts/'' @ dir_name t y m))
       \<union> {''content/posts/'' @ dir_name t y m}"
  by (simp add: created_fs dir_path_eq example_world_def example_fs_def)

text \<open>
  C8, as amended. A month below zero or above twelve given with \<^verbatim>\<open>--month\<close> is taken as it is:
  with a title, a content type, the base directory in place and nothing in the way of the
  entry, the run succeeds and creates the directory whose name carries the month in the same
  two-digit format, which for these months is the plain decimal text of the month. (The
  month zero is left out: it never reaches the directory name.)
\<close>

theorem out_of_range_month_accepted:
  assumes "arg_month argv = Some m" and "m < 0 \<or> 12 < m"
    and "parse_args content_types argv = Inr argv"
    and "or_input (arg_title argv) ''Enter working title: '' w = (Inr raw, w1)"
    and "strip raw \<noteq> []"
    and "or_input (arg_type argv) ''Enter content type(post/note): '' w1 = (Inr ct, w2)"
    and "map_of content_types_to_dir ct = Some d"
    and "y = int_or (arg_year argv) (int (dt_year (clock w (ticks w))))"
    and "path_exists (fs w) (base_dir d)"
    and "entry_free (fs w) d (strip raw) y m"
  shows "fst (main argv w) = Inr ()
       \<and> ''content/'' @ d @ ''/'' @ str_int y @ ''_'' @ format_02d m @ ''_'' @
            lower (replace_char CHR '' '' CHR ''_'' (strip raw))
           \<in> dirs (fs (snd (main argv w)))
       \<and> format_02d m = str_int m"
proof -
  let ?w3 = "w2\<lparr>ticks := Suc (ticks w)\<rparr>"
  have fs: "fs ?w3 = fs w"
    using or_input_frame[OF assms(4)] or_input_frame[OF assms(6)] by simp
  from assms(1,2) have m: "int_or (arg_month argv) (int (dt_month (clock w (ticks w)))) = m"
    by (auto simp: int_or_def)
  have "main argv w = init_content (strip raw) y m ct content_types_to_dir ?w3"
    unfolding main_reaches_init_content[OF assms(3-6) table_in_content_types[OF assms(7)]] m assms(8) ..
  also have "\<dots> = (Inr (), created ct d (strip raw) y m ?w3)"
    using assms(9,10) by (intro init_content_succeeds[OF assms(7)]) (simp_all add: fs)
  finally have run: "main argv w = (Inr (), created ct d (strip raw) y m ?w3)" .
  have "dir_path d (strip raw) y m \<in> dirs (fs (snd (main argv w)))"
    unfolding run by (simp add: created_fs)
  then have "''content/'' @ d @ ''/'' @ str_int y @ ''_'' @ format_02d m @ ''_'' @
            lower (replace_char CHR '' '' CHR ''_'' (strip raw))
           \<in> dirs (fs (snd (main argv w)))"
    using table_dir_plain[OF assms(7)] by (simp add: dir_path_eq dir_name_eq)
  with run format_02d_out_of_range[OF assms(2)] show ?thesis
    by simp
qed

theorem out_of_range_month_accepted_witness:
  "fst (main (example_args\<lparr>arg_month := Some 13\<rparr>) example_world) = Inr ()
   \<and> ''content/posts/2024_13_my_post''
       \<in> dirs (fs (snd (main (example_args\<lparr>arg_month := Some 13\<rparr>) example_world)))
   \<and> format_02d 13 = ''13''"
proof -
  let ?a = "example_args\<lparr>arg_month := Some 13\<rparr>"
  have m: "arg_month ?a = Some 13" by simp
  have r: "(13::int) < 0 \<or> 12 < (13::int)" by simp
  have p: "parse_args content_types ?a = Inr ?a"
    by (simp add: parse_args_def content_types_set example_args_def)
  have t: "or_input (arg_title ?a) ''Enter working title: '' example_world = (Inr ''My Post'', example_world)"
    by (simp add: or_input_def example_args_def)
  have s: "strip ''My Post'' \<noteq> []"
    by (simp add: example_strip)
  have c: "or_input (arg_type ?a) ''Enter content type(post/note): '' example_world =
      (Inr ''post'', example_world)"
    by (simp add: or_input_def example_args_def)
  have y: "2024 = int_or (arg_year ?a) (int (dt_year (clock example_world (ticks example_world))))"
    by (simp add: int_or_def example_args_def)
  have b: "path_exists (fs example_world) (base_dir ''posts'')"
    by (simp add: path_exists_def base_dir_def example_world_def example_fs_def)
  have f: "entry_free (fs example_world) ''posts'' (strip ''My Post'') 2024 13"
    by (simp add: example_world_def example_entry_free)
  have ev: "''content/'' @ ''posts'' @ ''/'' @ str_int 2024 @ ''_'' @ format_02d 13 @ ''_'' @
      lower (replace_char CHR '' '' CHR ''_'' (strip ''My Post'')) = ''content/posts/2024_13_my_post''"
    by code_simp
  have ev2: "str_int 13 = ''13''"
    by code_simp
  from out_of_range_month_accepted[OF m r p t s c example_table y b f, unfolded ev ev2]
  show ?thesis .
qed

text \<open>
  C8 as it was stated, for every month outside 1 to 12, fails at the month zero:
  \<^verbatim>\<open>--month 0\<close> on a day in November gives the directory \<^verbatim>\<open>2024_11_my_post\<close>, and no
  directory with \<^verbatim>\<open>00\<close>, the two-digit text of zero, in its name.
\<close>

theorem month_zero_counterexample:
  "format_02d 0 = ''00''
   \<and> fst (main (example_args\<lparr>arg_month := Some 0\<rparr>) example_world) = Inr ()
   \<and> dirs (fs (snd (main (example_args\<lparr>arg_month := Some 0\<rparr>) example_world))) =
       {''content'', ''content/posts'', ''content/posts/2024_11_my_post''}
   \<and> ''content/posts/2024_00_my_post''
       \<notin> dirs (fs (snd (main (example_args\<lparr>arg_month := Some 0\<rparr>) example_world)))"
proof -
  let ?a = "example_args\<lparr>arg_month := Some 0\<rparr>"
  have p: "parse_args content_types ?a = Inr ?a"
    by (simp add: parse_args_def content_types_set example_args_def)
  have run: "main ?a example_world =
      (Inr (), created ''post'' ''posts'' ''My Post'' 2024 11 (example_world\<lparr>ticks := Suc 0\<rparr>))"
    using example_main_any[OF p] by (simp add: example_args_def int_or_def)
  have n: "dir_name ''My Post'' 2024 11 = ''2024_11_my_post''"
    by code_simp
  have a: "set (ancestors ''content/posts/2024_11_my_post'') = {''content'', ''content/posts''}"
    by code_simp
  have d: "dirs (fs (snd (main ?a example_world))) =
      {''content'', ''content/posts'', ''content/posts/2024_11_my_post''}"
    unfolding run snd_conv example_created_dirs n using a by auto
  have z: "format_02d 0 = ''00''"
    by code_simp
  from z run d show ?thesis
    by simp
qed

section \<open>What a successful run writes\<close>

text \<open>A run of \<^verbatim>\<open>main\<close> that went through, read backwards: what it was given, what it
  found and what it left.\<close>

lemma main_Inr_created:
  assumes "main argv w = (Inr u, w')"
    and "or_input (arg_title argv) ''Enter working title: '' w = (Inr raw, w1)"
    and "or_input (arg_type argv) ''Enter content type(post/note): '' w1 = (Inr ct, w2)"
    and "map_of content_types_to_dir ct = Some d"
    and "y = int_or (arg_year argv) (int (dt_year (clock w (ticks w))))"
    and "m = int_or (arg_month argv) (int (dt_month (clock w (ticks w))))"
  shows "w' = created ct d (strip raw) y m (w2\<lparr>ticks := Suc (ticks w)\<rparr>)"
    and "strip raw \<noteq> []"
    and "parse_args content_types argv = Inr argv"
    and "path_exists (fs w) (base_dir d)"
    and "entry_free (fs w) d (strip raw) y m"
proof -
  from assms(1) obtain raw' w1' ct' w2' where e:
    "parse_args content_types argv = Inr argv"
    "or_input (arg_title argv) ''Enter working title: '' w = (Inr raw', w1')"
    "strip raw' \<noteq> []"
    "or_input (arg_type argv) ''Enter content type(post/note): '' w1' = (Inr ct', w2')"
    "ct' \<in> set content_types"
    by (rule main_Inr_elim)
  from e(2) assms(2) have r: "raw' = raw" "w1' = w1" by simp_all
  from e(4) assms(3) r have c: "ct' = ct" "w2' = w2" by simp_all
  show "strip raw \<noteq> []" using e(3) r by simp
  show "parse_args content_types argv = Inr argv" by (rule e(1))
  let ?w3 = "w2\<lparr>ticks := Suc (ticks w)\<rparr>"
  have fs: "fs ?w3 = fs w"
    using or_input_frame[OF assms(2)] or_input_frame[OF assms(3)] by simp
  have "main argv w = init_content (strip raw) y m ct content_types_to_dir ?w3"
    using main_reaches_init_content[OF e(1) e(2) e(3) e(4) e(5)] r c assms(5,6) by simp
  with assms(1) have "init_content (strip raw) y m ct content_types_to_dir ?w3 = (Inr u, w')"
    by simp
  then have i: "path_exists (fs ?w3) (base_dir d)" "\<not> blocked (fs ?w3) (dir_path d (strip raw) y m)"
    "files (fs ?w3) (dir_path d (strip raw) y m) = None"
    "index_file_path d (strip raw) y m \<notin> dirs (fs ?w3)"
    "w' = created ct d (strip raw) y m ?w3"
    unfolding init_content_Inr_iff[OF assms(4)] by blast+
  show "w' = created ct d (strip raw) y m ?w3" by (rule i(5))
  show "path_exists (fs w) (base_dir d)" using i(1) fs by simp
  show "entry_free (fs w) d (strip raw) y m"
    using i(2,3,4) unfolding fs by (simp add: entry_free_def)
qed

lemma strftime_nonempty: "strftime_Ymd dt \<noteq> []"
  by (simp add: strftime_Ymd_def digits_nonempty)

lemma slug_nonempty: "t \<noteq> [] \<Longrightarrow> slug t \<noteq> []"
  by (simp add: slug_def lower_def replace_char_def)

lemma content_type_nonempty: "map_of content_types_to_dir ct = Some d \<Longrightarrow> ct \<noteq> []"
  by (auto simp: content_types_to_dir_cases)

text \<open>
  C7. After a run that went through, the index file holds the frontmatter block with the
  title, the date, the type and the slug filled in, none of them empty, and with
  \<^verbatim>\<open>summary = ""\<close> and \<^verbatim>\<open>tags = []\<close>.
\<close>

theorem frontmatter_fields:
  assumes "main argv w = (Inr u, w')"
    and "or_input (arg_title argv) ''Enter working title: '' w = (Inr raw, w1)"
    and "or_input (arg_type argv) ''Enter content type(post/note): '' w1 = (Inr ct, w2)"
    and "map_of content_types_to_dir ct = Some d"
    and "y = int_or (arg_year argv) (int (dt_year (clock w (ticks w))))"
    and "m = int_or (arg_month argv) (int (dt_month (clock w (ticks w))))"
    and "date = strftime_Ymd (clock w (Suc (ticks w)))"
  shows "files (fs w') (index_file_path d (strip raw) y m) =
           Some (''+++\<newline>'' @
                 ''title = '' @ [dq] @ strip raw @ [dq] @ ''\<newline>'' @
                 ''date = '' @ [dq] @ date @ [dq] @ ''\<newline>'' @
                 ''summary = '' @ [dq, dq] @ ''\<newline>'' @
                 ''tags = []\<newline>'' @
                 ''type = '' @ [dq] @ ct @ [dq] @ ''\<newline>'' @
                 ''toc = false\<newline>'' @
                 ''readTime = true\<newline>'' @
                 ''autonumber = false\<newline>'' @
                 ''showTags = true\<newline>'' @
                 ''slug = '' @ [dq] @ slug (strip raw) @ [dq] @ ''\<newline>'' @
                 ''+++\<newline>'' @
                 ''\<newline>'')
       \<and> strip raw \<noteq> [] \<and> date \<noteq> [] \<and> ct \<noteq> [] \<and> slug (strip raw) \<noteq> []"
proof -
  note c = main_Inr_created[OF assms(1-6)]
  have "clock w2 = clock w"
    using or_input_frame[OF assms(2)] or_input_frame[OF assms(3)] by simp
  then have "files (fs w') (index_file_path d (strip raw) y m) =
      Some (frontmatter (strip raw) date ct (slug (strip raw)))"
    unfolding c(1) assms(7) by (simp add: created_fs)
  then show ?thesis
    using c(2) slug_nonempty[OF c(2)] content_type_nonempty[OF assms(4)] strftime_nonempty[of "clock w (Suc (ticks w))"]
    unfolding frontmatter_def assms(7) by simp
qed

lemma example_or_input_title:
  "or_input (arg_title example_args) ''Enter working title: '' example_world = (Inr ''My Post'', example_world)"
  by (simp add: or_input_def example_args_def)

lemma example_or_input_type:
  "or_input (arg_type example_args) ''Enter content type(post/note): '' example_world =
     (Inr ''post'', example_world)"
  by (simp add: or_input_def example_args_def)

lemma example_main_Inr:
  "main example_args example_world = (Inr (), snd (main example_args example_world))"
  by (simp add: example_main)

lemma example_year_month:
  "2024 = int_or (arg_year example_args) (int (dt_year (clock example_world (ticks example_world))))"
  "3 = int_or (arg_month example_args) (int (dt_month (clock example_world (ticks example_world))))"
  by (simp_all add: int_or_def example_args_def)

lemma example_date_read:
  "''2026-11-04'' = strftime_Ymd (clock example_world (Suc (ticks example_world)))"
  by (simp add: example_world_def example_date)

theorem frontmatter_fields_witness:
  "files (fs (snd (main example_args example_world))) ''content/posts/2024_03_my_post/index.md'' =
     Some (''+++\<newline>'' @
           ''title = '' @ [dq] @ ''My Post'' @ [dq] @ ''\<newline>'' @
           ''date = '' @ [dq] @ ''2026-11-04'' @ [dq] @ ''\<newline>'' @
           ''summary = '' @ [dq, dq] @ ''\<newline>'' @
           ''tags = []\<newline>'' @
           ''type = '' @ [dq] @ ''post'' @ [dq] @ ''\<newline>'' @
           ''toc = false\<newline>'' @
           ''readTime = true\<newline>'' @
           ''autonumber = false\<newline>'' @
           ''showTags = true\<newline>'' @
           ''slug = '' @ [dq] @ ''my-post'' @ [dq] @ ''\<newline>'' @
           ''+++\<newline>'' @
           ''\<newline>'')"
  using frontmatter_fields[OF example_main_Inr example_or_input_title example_or_input_type
      example_table example_year_month example_date_read,
      unfolded example_strip example_index_file_path example_slug]
  by (rule conjunct1)

text \<open>
  C10. The title line of the frontmatter is \<^verbatim>\<open>title = "\<close>, the stripped title as it is, and
  \<^verbatim>\<open>"\<close>: nothing is escaped. So when the title holds a double quote, that quote stands bare
  between the outer quotes, and the quoted text does not read back as the title, whatever
  the table of escapes: a reader either stops at the bare quote or, where a backslash in
  the title happens to escape it, returns a shorter text.
\<close>

theorem title_written_unescaped:
  assumes "main argv w = (Inr u, w')"
    and "or_input (arg_title argv) ''Enter working title: '' w = (Inr raw, w1)"
    and "or_input (arg_type argv) ''Enter content type(post/note): '' w1 = (Inr ct, w2)"
    and "map_of content_types_to_dir ct = Some d"
    and "y = int_or (arg_year argv) (int (dt_year (clock w (ticks w))))"
    and "m = int_or (arg_month argv) (int (dt_month (clock w (ticks w))))"
    and "dq \<in> set (strip raw)"
  shows "(\<exists>rest. files (fs w') (index_file_path d (strip raw) y m) =
            Some (''+++\<newline>'' @ ''title = '' @ [dq] @ strip raw @ [dq] @ ''\<newline>'' @ rest))
       \<and> unquote esc ([dq] @ strip raw @ [dq]) \<noteq> Some (strip raw)"
proof -
  note c = main_Inr_created[OF assms(1-6)]
  have "files (fs w') (index_file_path d (strip raw) y m) =
      Some (frontmatter (strip raw) (strftime_Ymd (clock w2 (Suc (ticks w)))) ct (slug (strip raw)))"
    unfolding c(1) by (simp add: created_fs)
  then have 1: "\<exists>rest. files (fs w') (index_file_path d (strip raw) y m) =
      Some (''+++\<newline>'' @ ''title = '' @ [dq] @ strip raw @ [dq] @ ''\<newline>'' @ rest)"
    unfolding frontmatter_def by simp
  have 2: "unquote esc ([dq] @ strip raw @ [dq]) \<noteq> Some (strip raw)"
  proof
    assume "unquote esc ([dq] @ strip raw @ [dq]) = Some (strip raw)"
    then have "unescape esc (strip raw) = Some (strip raw)"
      by (simp add: unquote_wrapped)
    from unescape_dq_shorter[OF this assms(7)] show False
      by simp
  qed
  from 1 2 show ?thesis ..
qed

lemma example_main_title:
  assumes "parse_args content_types argv = Inr argv"
    and "arg_title argv = Some t" and "t \<noteq> []" and "strip t \<noteq> []" and "arg_type argv = Some ''post''"
  shows "main argv example_world =
     (Inr (), created ''post'' ''posts'' (strip t)
        (int_or (arg_year argv) 2026) (int_or (arg_month argv) 11) (example_world\<lparr>ticks := Suc 0\<rparr>))"
proof -
  have t: "or_input (arg_title argv) ''Enter working title: '' example_world = (Inr t, example_world)"
    by (simp add: or_input_def assms)
  have c: "or_input (arg_type argv) ''Enter content type(post/note): '' example_world =
      (Inr ''post'', example_world)"
    by (simp add: or_input_def assms)
  have m: "''post'' \<in> set content_types"
    by (simp add: content_types_set)
  have k: "int (dt_year (clock example_world (ticks example_world))) = 2026"
    "int (dt_month (clock example_world (ticks example_world))) = 11"
    "example_world\<lparr>ticks := Suc (ticks example_world)\<rparr> = example_world\<lparr>ticks := Suc 0\<rparr>"
    by (simp_all add: example_world_def example_clock_def)
  show ?thesis
    unfolding main_reaches_init_content[OF assms(1) t assms(4) c m] k
    by (rule example_init_content_any)
qed

theorem title_written_unescaped_witness:
  "(\<exists>rest. files (fs (snd (main (example_args\<lparr>arg_title := Some example_quoted_title\<rparr>) example_world)))
              (index_file_path ''posts'' example_quoted_title 2024 3) =
            Some (''+++\<newline>'' @ ''title = '' @ [dq] @ example_quoted_title @ [dq] @ ''\<newline>'' @ rest))
   \<and> unquote toml_esc ([dq] @ example_quoted_title @ [dq]) \<noteq> Some example_quoted_title
   \<and> unquote toml_esc ([dq] @ example_quoted_title @ [dq]) = None"
proof -
  let ?a = "example_args\<lparr>arg_title := Some example_quoted_title\<rparr>"
  have s: "strip example_quoted_title = example_quoted_title"
    by code_simp
  have ne: "example_quoted_title \<noteq> []"
    by (simp add: example_quoted_title_def)
  have p: "parse_args content_types ?a = Inr ?a"
    by (simp add: parse_args_def content_types_set example_args_def)
  have run: "main ?a example_world = (Inr (), snd (main ?a example_world))"
    using example_main_title[OF p, of example_quoted_title] ne s by (simp add: example_args_def)
  have t: "or_input (arg_title ?a) ''Enter working title: '' example_world =
      (Inr example_quoted_title, example_world)"
    using ne by (simp add: or_input_def)
  have c: "or_input (arg_type ?a) ''Enter content type(post/note): '' example_world =
      (Inr ''post'', example_world)"
    by (simp add: or_input_def example_args_def)
  have y: "2024 = int_or (arg_year ?a) (int (dt_year (clock example_world (ticks example_world))))"
    and m: "3 = int_or (arg_month ?a) (int (dt_month (clock example_world (ticks example_world))))"
    by (simp_all add: int_or_def example_args_def)
  have q: "dq \<in> set (strip example_quoted_title)"
    unfolding s by (simp add: example_quoted_title_def)
  have n: "unquote toml_esc ([dq] @ example_quoted_title @ [dq]) = None"
    by code_simp
  from title_written_unescaped[OF run t c example_table y m q, of toml_esc, unfolded s] n
  show ?thesis by simp
qed

section \<open>Zero for the year or the month\<close>

text \<open>With a title and a content type that pass the checks, the base directory in place and
  nothing in the way of the entry, \<^verbatim>\<open>main\<close> goes through and leaves the entry for the year and
  the month that \<^verbatim>\<open>or\<close> resolves.\<close>

lemma main_creates:
  assumes "parse_args content_types argv = Inr argv"
    and "or_input (arg_title argv) ''Enter working title: '' w = (Inr raw, w1)"
    and "strip raw \<noteq> []"
    and "or_input (arg_type argv) ''Enter content type(post/note): '' w1 = (Inr ct, w2)"
    and "map_of content_types_to_dir ct = Some d"
    and "path_exists (fs w) (base_dir d)"
    and "y = int_or (arg_year argv) (int (dt_year (clock w (ticks w))))"
    and "m = int_or (arg_month argv) (int (dt_month (clock w (ticks w))))"
    and "entry_free (fs w) d (strip raw) y m"
  shows "main argv w = (Inr (), created ct d (strip raw) y m (w2\<lparr>ticks := Suc (ticks w)\<rparr>))"
    and "''content/'' @ d @ ''/'' @ str_int y @ ''_'' @ format_02d m @ ''_'' @
            lower (replace_char CHR '' '' CHR ''_'' (strip raw))
           \<in> dirs (fs (snd (main argv w)))"
proof -
  let ?w3 = "w2\<lparr>ticks := Suc (ticks w)\<rparr>"
  have fs: "fs ?w3 = fs w"
    using or_input_frame[OF assms(2)] or_input_frame[OF assms(4)] by simp
  have "main argv w = init_content (strip raw) y m ct content_types_to_dir ?w3"
    unfolding main_reaches_init_content[OF assms(1-4) table_in_content_types[OF assms(5)]]
      assms(7,8) ..
  also have "\<dots> = (Inr (), created ct d (strip raw) y m ?w3)"
    using assms(6,9) by (intro init_content_succeeds[OF assms(5)]) (simp_all add: fs)
  finally show run: "main argv w = (Inr (), created ct d (strip raw) y m ?w3)" .
  have "dir_path d (strip raw) y m \<in> dirs (fs (snd (main argv w)))"
    unfolding run by (simp add: created_fs)
  then show "''content/'' @ d @ ''/'' @ str_int y @ ''_'' @ format_02d m @ ''_'' @
            lower (replace_char CHR '' '' CHR ''_'' (strip raw))
           \<in> dirs (fs (snd (main argv w)))"
    using table_dir_plain[OF assms(5)] by (simp add: dir_path_eq dir_name_eq)
qed

lemma parse_args_update:
  "parse_args content_types argv = Inr argv \<Longrightarrow>
   parse_args content_types (argv\<lparr>arg_year := yv\<rparr>) = Inr (argv\<lparr>arg_year := yv\<rparr>) \<and>
   parse_args content_types (argv\<lparr>arg_month := mv\<rparr>) = Inr (argv\<lparr>arg_month := mv\<rparr>)"
  by (auto simp: parse_args_def split: option.splits if_splits)

text \<open>
  C9. \<^verbatim>\<open>--year 0\<close> runs exactly as no \<^verbatim>\<open>--year\<close> at all, and \<^verbatim>\<open>--month 0\<close> exactly as no
  \<^verbatim>\<open>--month\<close>: \<^verbatim>\<open>args.year or now.year\<close> takes the clock's year for zero as it does for a
  flag that was not given, and likewise for the month. The clock's value is what the run
  then uses: with a title, a content type, the base directory in place and nothing in the
  way of the entry, the run with \<^verbatim>\<open>--year 0\<close> goes through and creates the directory named
  after the clock's year, and the run with \<^verbatim>\<open>--month 0\<close> the directory named after the
  clock's month.
\<close>

theorem zero_year_month_is_default:
  "main (argv\<lparr>arg_year := Some 0\<rparr>) w = main (argv\<lparr>arg_year := None\<rparr>) w
   \<and> main (argv\<lparr>arg_month := Some 0\<rparr>) w = main (argv\<lparr>arg_month := None\<rparr>) w
   \<and> int_or (Some 0) now_value = now_value \<and> int_or None now_value = now_value
   \<and> (parse_args content_types argv = Inr argv
        \<and> or_input (arg_title argv) ''Enter working title: '' w = (Inr raw, w1)
        \<and> strip raw \<noteq> []
        \<and> or_input (arg_type argv) ''Enter content type(post/note): '' w1 = (Inr ct, w2)
        \<and> map_of content_types_to_dir ct = Some d
        \<and> path_exists (fs w) (base_dir d)
        \<and> clock_year = int (dt_year (clock w (ticks w)))
        \<and> m = int_or (arg_month argv) (int (dt_month (clock w (ticks w))))
        \<and> entry_free (fs w) d (strip raw) clock_year m \<longrightarrow>
      main (argv\<lparr>arg_year := Some 0\<rparr>) w =
        (Inr (), created ct d (strip raw) clock_year m (w2\<lparr>ticks := Suc (ticks w)\<rparr>))
      \<and> ''content/'' @ d @ ''/'' @ str_int clock_year @ ''_'' @ format_02d m @ ''_'' @
            lower (replace_char CHR '' '' CHR ''_'' (strip raw))
           \<in> dirs (fs (snd (main (argv\<lparr>arg_year := Some 0\<rparr>) w))))
   \<and> (parse_args content_types argv = Inr argv
        \<and> or_input (arg_title argv) ''Enter working title: '' w = (Inr raw, w1)
        \<and> strip raw \<noteq> []
        \<and> or_input (arg_type argv) ''Enter content type(post/note): '' w1 = (Inr ct, w2)
        \<and> map_of content_types_to_dir ct = Some d
        \<and> path_exists (fs w) (base_dir d)
        \<and> y = int_or (arg_year argv) (int (dt_year (clock w (ticks w))))
        \<and> clock_month = int (dt_month (clock w (ticks w)))
        \<and> entry_free (fs w) d (strip raw) y clock_month \<longrightarrow>
      main (argv\<lparr>arg_month := Some 0\<rparr>) w =
        (Inr (), created ct d (strip raw) y clock_month (w2\<lparr>ticks := Suc (ticks w)\<rparr>))
      \<and> ''content/'' @ d @ ''/'' @ str_int y @ ''_'' @ format_02d clock_month @ ''_'' @
            lower (replace_char CHR '' '' CHR ''_'' (strip raw))
           \<in> dirs (fs (snd (main (argv\<lparr>arg_month := Some 0\<rparr>) w))))"
proof -
  have e1: "main (argv\<lparr>arg_year := Some 0\<rparr>) w = main (argv\<lparr>arg_year := None\<rparr>) w"
    by (cases "arg_type argv") (simp_all add: main_def parse_args_def int_or_def Let_def split: prod.split sum.split)
  have e2: "main (argv\<lparr>arg_month := Some 0\<rparr>) w = main (argv\<lparr>arg_month := None\<rparr>) w"
    by (cases "arg_type argv") (simp_all add: main_def parse_args_def int_or_def Let_def split: prod.split sum.split)
  have e3: "int_or (Some 0) now_value = now_value \<and> int_or None now_value = now_value"
    by (simp add: int_or_def)
  have c1: "main (argv\<lparr>arg_year := Some 0\<rparr>) w =
        (Inr (), created ct d (strip raw) clock_year m (w2\<lparr>ticks := Suc (ticks w)\<rparr>))
      \<and> ''content/'' @ d @ ''/'' @ str_int clock_year @ ''_'' @ format_02d m @ ''_'' @
            lower (replace_char CHR '' '' CHR ''_'' (strip raw))
           \<in> dirs (fs (snd (main (argv\<lparr>arg_year := Some 0\<rparr>) w)))"
    if h: "parse_args content_types argv = Inr argv
        \<and> or_input (arg_title argv) ''Enter working title: '' w = (Inr raw, w1)
        \<and> strip raw \<noteq> []
        \<and> or_input (arg_type argv) ''Enter content type(post/note): '' w1 = (Inr ct, w2)
        \<and> map_of content_types_to_dir ct = Some d
        \<and> path_exists (fs w) (base_dir d)
        \<and> clock_year = int (dt_year (clock w (ticks w)))
        \<and> m = int_or (arg_month argv) (int (dt_month (clock w (ticks w))))
        \<and> entry_free (fs w) d (strip raw) clock_year m"
  proof -
    let ?a = "argv\<lparr>arg_year := Some 0\<rparr>"
    from h have p: "parse_args content_types ?a = Inr ?a"
      using parse_args_update[of argv "Some 0"] by blast
    from h have t0: "or_input (arg_title argv) ''Enter working title: '' w = (Inr raw, w1)"
      and s: "strip raw \<noteq> []"
      and c0: "or_input (arg_type argv) ''Enter content type(post/note): '' w1 = (Inr ct, w2)"
      and d: "map_of content_types_to_dir ct = Some d"
      and b: "path_exists (fs w) (base_dir d)"
      and y0: "clock_year = int (dt_year (clock w (ticks w)))"
      and m0: "m = int_or (arg_month argv) (int (dt_month (clock w (ticks w))))"
      and f: "entry_free (fs w) d (strip raw) clock_year m"
      by blast+
    have t: "or_input (arg_title ?a) ''Enter working title: '' w = (Inr raw, w1)"
      and c: "or_input (arg_type ?a) ''Enter content type(post/note): '' w1 = (Inr ct, w2)"
      using t0 c0 by simp_all
    have y: "clock_year = int_or (arg_year ?a) (int (dt_year (clock w (ticks w))))"
      unfolding y0 by (simp add: int_or_def)
    have m: "m = int_or (arg_month ?a) (int (dt_month (clock w (ticks w))))"
      unfolding m0 by simp
    from main_creates[OF p t s c d b y m f] show ?thesis by (intro conjI)
  qed
  have c2: "main (argv\<lparr>arg_month := Some 0\<rparr>) w =
        (Inr (), created ct d (strip raw) y clock_month (w2\<lparr>ticks := Suc (ticks w)\<rparr>))
      \<and> ''content/'' @ d @ ''/'' @ str_int y @ ''_'' @ format_02d clock_month @ ''_'' @
            lower (replace_char CHR '' '' CHR ''_'' (strip raw))
           \<in> dirs (fs (snd (main (argv\<lparr>arg_month := Some 0\<rparr>) w)))"
    if h: "parse_args content_types argv = Inr argv
        \<and> or_input (arg_title argv) ''Enter working title: '' w = (Inr raw, w1)
        \<and> strip raw \<noteq> []
        \<and> or_input (arg_type argv) ''Enter content type(post/note): '' w1 = (Inr ct, w2)
        \<and> map_of content_types_to_dir ct = Some d
        \<and> path_exists (fs w) (base_dir d)
        \<and> y = int_or (arg_year argv) (int (dt_year (clock w (ticks w))))
        \<and> clock_month = int (dt_month (clock w (ticks w)))
        \<and> entry_free (fs w) d (strip raw) y clock_month"
  proof -
    let ?a = "argv\<lparr>arg_month := Some 0\<rparr>"
    from h have p: "parse_args content_types ?a = Inr ?a"
      using parse_args_update[of argv _ "Some 0"] by blast
    from h have t0: "or_input (arg_title argv) ''Enter working title: '' w = (Inr raw, w1)"
      and s: "strip raw \<noteq> []"
      and c0: "or_input (arg_type argv) ''Enter content type(post/note): '' w1 = (Inr ct, w2)"
      and d: "map_of content_types_to_dir ct = Some d"
      and b: "path_exists (fs w) (base_dir d)"
      and y0: "y = int_or (arg_year argv) (int (dt_year (clock w (ticks w))))"
      and m0: "clock_month = int (dt_month (clock w (ticks w)))"
      and f: "entry_free (fs w) d (strip raw) y clock_month"
      by blast+
    have t: "or_input (arg_title ?a) ''Enter working title: '' w = (Inr raw, w1)"
      and c: "or_input (arg_type ?a) ''Enter content type(post/note): '' w1 = (Inr ct, w2)"
      using t0 c0 by simp_all
    have y: "y = int_or (arg_year ?a) (int (dt_year (clock w (ticks w))))"
      unfolding y0 by simp
    have m: "clock_month = int_or (arg_month ?a) (int (dt_month (clock w (ticks w))))"
      unfolding m0 by (simp add: int_or_def)
    from main_creates[OF p t s c d b y m f] show ?thesis by (intro conjI)
  qed
  from e1 e2 e3 c1 c2 show ?thesis by blast
qed

theorem zero_year_month_is_default_witness:
  "main (example_args\<lparr>arg_year := Some 0\<rparr>) example_world =
     main (example_args\<lparr>arg_year := None\<rparr>) example_world
   \<and> main (example_args\<lparr>arg_month := Some 0\<rparr>) example_world =
     main (example_args\<lparr>arg_month := None\<rparr>) example_world
   \<and> int_or (Some 0) 2026 = 2026
   \<and> fst (main (example_args\<lparr>arg_year := Some 0\<rparr>) example_world) = Inr ()
   \<and> ''content/posts/2026_03_my_post''
       \<in> dirs (fs (snd (main (example_args\<lparr>arg_year := Some 0\<rparr>) example_world)))
   \<and> fst (main (example_args\<lparr>arg_month := Some 0\<rparr>) example_world) = Inr ()
   \<and> ''content/posts/2024_11_my_post''
       \<in> dirs (fs (snd (main (example_args\<lparr>arg_month := Some 0\<rparr>) example_world)))"
proof -
  note z = zero_year_month_is_default[where argv = example_args and w = example_world
      and now_value = 2026 and raw = "''My Post''" and ?w1.0 = example_world and ct = "''post''"
      and ?w2.0 = example_world and d = "''posts''" and clock_year = 2026 and m = 3
      and y = 2024 and clock_month = 11]
  have b: "path_exists (fs example_world) (base_dir ''posts'')"
    by (simp add: path_exists_def base_dir_def example_world_def example_fs_def)
  have k: "(2026::int) = int (dt_year (clock example_world (ticks example_world)))"
    "(11::int) = int (dt_month (clock example_world (ticks example_world)))"
    by (simp_all add: example_world_def example_clock_def)
  have h1: "parse_args content_types example_args = Inr example_args
        \<and> or_input (arg_title example_args) ''Enter working title: '' example_world =
            (Inr ''My Post'', example_world)
        \<and> strip ''My Post'' \<noteq> []
        \<and> or_input (arg_type example_args) ''Enter content type(post/note): '' example_world =
            (Inr ''post'', example_world)
        \<and> map_of content_types_to_dir ''post'' = Some ''posts''
        \<and> path_exists (fs example_world) (base_dir ''posts'')
        \<and> 2026 = int (dt_year (clock example_world (ticks example_world)))
        \<and> 3 = int_or (arg_month example_args) (int (dt_month (clock example_world (ticks example_world))))
        \<and> entry_free (fs example_world) ''posts'' (strip ''My Post'') 2026 3"
    using example_parse example_or_input_title example_or_input_type example_table b k(1)
      example_year_month(2) example_entry_free[of "strip ''My Post''" 2026 3]
    by (simp add: example_strip example_world_def)
  have h2: "parse_args content_types example_args = Inr example_args
        \<and> or_input (arg_title example_args) ''Enter working title: '' example_world =
            (Inr ''My Post'', example_world)
        \<and> strip ''My Post'' \<noteq> []
        \<and> or_input (arg_type example_args) ''Enter content type(post/note): '' example_world =
            (Inr ''post'', example_world)
        \<and> map_of content_types_to_dir ''post'' = Some ''posts''
        \<and> path_exists (fs example_world) (base_dir ''posts'')
        \<and> 2024 = int_or (arg_year example_args) (int (dt_year (clock example_world (ticks example_world))))
        \<and> 11 = int (dt_month (clock example_world (ticks example_world)))
        \<and> entry_free (fs example_world) ''posts'' (strip ''My Post'') 2024 11"
    using example_parse example_or_input_title example_or_input_type example_table b k(2)
      example_year_month(1) example_entry_free[of "strip ''My Post''" 2024 11]
    by (simp add: example_strip example_world_def)
  have ev1: "''content/'' @ ''posts'' @ ''/'' @ str_int 2026 @ ''_'' @ format_02d 3 @ ''_'' @
      lower (replace_char CHR '' '' CHR ''_'' (strip ''My Post'')) = ''content/posts/2026_03_my_post''"
    by code_simp
  have ev2: "''content/'' @ ''posts'' @ ''/'' @ str_int 2024 @ ''_'' @ format_02d 11 @ ''_'' @
      lower (replace_char CHR '' '' CHR ''_'' (strip ''My Post'')) = ''content/posts/2024_11_my_post''"
    by code_simp
  from z have e1: "main (example_args\<lparr>arg_year := Some 0\<rparr>) example_world =
      main (example_args\<lparr>arg_year := None\<rparr>) example_world"
    and e2: "main (example_args\<lparr>arg_month := Some 0\<rparr>) example_world =
      main (example_args\<lparr>arg_month := None\<rparr>) example_world"
    and e3: "int_or (Some 0) 2026 = (2026::int)"
    by blast+
  from z h1 have c1: "main (example_args\<lparr>arg_year := Some 0\<rparr>) example_world =
        (Inr (), created ''post'' ''posts'' (strip ''My Post'') 2026 3
           (example_world\<lparr>ticks := Suc (ticks example_world)\<rparr>))
      \<and> ''content/'' @ ''posts'' @ ''/'' @ str_int 2026 @ ''_'' @ format_02d 3 @ ''_'' @
            lower (replace_char CHR '' '' CHR ''_'' (strip ''My Post''))
           \<in> dirs (fs (snd (main (example_args\<lparr>arg_year := Some 0\<rparr>) example_world)))"
    by blast
  from z h2 have c2: "main (example_args\<lparr>arg_month := Some 0\<rparr>) example_world =
        (Inr (), created ''post'' ''posts'' (strip ''My Post'') 2024 11
           (example_world\<lparr>ticks := Suc (ticks example_world)\<rparr>))
      \<and> ''content/'' @ ''posts'' @ ''/'' @ str_int 2024 @ ''_'' @ format_02d 11 @ ''_'' @
            lower (replace_char CHR '' '' CHR ''_'' (strip ''My Post''))
           \<in> dirs (fs (snd (main (example_args\<lparr>arg_month := Some 0\<rparr>) example_world)))"
    by blast
  have a1: "fst (main (example_args\<lparr>arg_year := Some 0\<rparr>) example_world) = Inr ()"
    using c1[THEN conjunct1] by simp
  have a2: "''content/posts/2026_03_my_post''
       \<in> dirs (fs (snd (main (example_args\<lparr>arg_year := Some 0\<rparr>) example_world)))"
    by (rule c1[unfolded ev1, THEN conjunct2])
  have a3: "fst (main (example_args\<lparr>arg_month := Some 0\<rparr>) example_world) = Inr ()"
    using c2[THEN conjunct1] by simp
  have a4: "''content/posts/2024_11_my_post''
       \<in> dirs (fs (snd (main (example_args\<lparr>arg_month := Some 0\<rparr>) example_world)))"
    by (rule c2[unfolded ev2, THEN conjunct2])
  from e1 e2 e3 a1 a2 a3 a4 show ?thesis by (intro conjI)
qed

section \<open>Running twice\<close>

lemma or_input_same_stdin:
  assumes "or_input x prompt w = (Inr r, w1)" and "stdin v = stdin w"
  obtains v1 where "or_input x prompt v = (Inr r, v1)" "stdin v1 = stdin w1" "fs v1 = fs v"
    "clock v1 = clock v" "ticks v1 = ticks v"
proof (cases "x = None \<or> x = Some []")
  case True
  then have i: "or_input x prompt w = py_input prompt w" "or_input x prompt v = py_input prompt v"
    by (auto simp: or_input_def)
  from assms(1) i(1) obtain ls where l: "stdin w = r # ls" "stdin w1 = ls"
    by (auto simp: py_input_def split: list.splits)
  let ?v1 = "v\<lparr>stdin := ls, stdout := stdout v @ prompt\<rparr>"
  have "or_input x prompt v = (Inr r, ?v1)"
    using l assms(2) i(2) by (simp add: py_input_def)
  then show ?thesis
    using l(2) by (intro that[of ?v1]) simp_all
next
  case False
  then obtain s where s: "x = Some s" "s \<noteq> []" by auto
  with assms(1) have "r = s" "w1 = w" by (simp_all add: or_input_def)
  with s assms(2) show ?thesis
    by (intro that[of v]) (simp_all add: or_input_def)
qed

lemma index_not_in_entry:
  "index_file_path d t y m \<noteq> dir_path d t y m"
  "index_file_path d t y m \<notin> set (ancestors (dir_path d t y m))"
  using length_index[OF dir_path_nonempty, of d t y m] ancestors_length[of "index_file_path d t y m" "dir_path d t y m"]
  by (auto simp: index_file_path_def)

lemma created_path_exists:
  "path_exists (fs w) p \<Longrightarrow> path_exists (fs (created ct d t y m w)) p"
  by (auto simp: path_exists_def created_fs)

lemma created_entry_free:
  assumes "entry_free (fs w) d t y m"
  shows "entry_free (fs (created ct d t y m w)) d t y m"
proof -
  from assms have a: "\<not> blocked (fs w) (dir_path d t y m)" "files (fs w) (dir_path d t y m) = None"
    "index_file_path d t y m \<notin> dirs (fs w)"
    by (simp_all add: entry_free_def)
  have "\<not> blocked (fs (created ct d t y m w)) (dir_path d t y m)"
    using a(1) index_not_in_entry(2)[of d t y m] by (auto simp: blocked_iff created_fs)
  moreover have "files (fs (created ct d t y m w)) (dir_path d t y m) = None"
    using a(2) index_not_in_entry(1)[of d t y m] by (simp add: created_fs)
  moreover have "index_file_path d t y m \<notin> dirs (fs (created ct d t y m w))"
    using a(3) index_not_in_entry[of d t y m] by (simp add: created_fs)
  ultimately show ?thesis
    by (simp add: entry_free_def)
qed

text \<open>The second of two runs, given that the first went through.\<close>

lemma rerun_after_success:
  assumes "main argv w = (Inr u, w')"
    and "or_input (arg_title argv) ''Enter working title: '' w = (Inr raw, w1)"
    and "or_input (arg_type argv) ''Enter content type(post/note): '' w1 = (Inr ct, w2)"
    and "map_of content_types_to_dir ct = Some d"
    and "y = int_or (arg_year argv) (int (dt_year (clock w (ticks w))))"
    and "m = int_or (arg_month argv) (int (dt_month (clock w (ticks w))))"
    and "fs v = fs w'" and "stdin v = stdin w"
    and "int_or (arg_year argv) (int (dt_year (clock v (ticks v)))) = y"
    and "int_or (arg_month argv) (int (dt_month (clock v (ticks v)))) = m"
  shows "fst (main argv v) = Inr ()
       \<and> dirs (fs (snd (main argv v))) = dirs (fs w')
       \<and> files (fs w') (index_file_path d (strip raw) y m) =
           Some (frontmatter (strip raw) (strftime_Ymd (clock w (Suc (ticks w)))) ct (slug (strip raw)))
       \<and> files (fs (snd (main argv v))) =
           (files (fs w'))(index_file_path d (strip raw) y m \<mapsto>
              frontmatter (strip raw) (strftime_Ymd (clock v (Suc (ticks v)))) ct (slug (strip raw)))"
proof -
  let ?t = "strip raw"
  let ?w3 = "w2\<lparr>ticks := Suc (ticks w)\<rparr>"
  note c = main_Inr_created[OF assms(1-6)]
  have w3: "fs ?w3 = fs w" "clock ?w3 = clock w" "ticks ?w3 = Suc (ticks w)"
    using or_input_frame[OF assms(2)] or_input_frame[OF assms(3)] by simp_all
  obtain v1 where v1: "or_input (arg_title argv) ''Enter working title: '' v = (Inr raw, v1)"
    "stdin v1 = stdin w1" "fs v1 = fs v" "clock v1 = clock v" "ticks v1 = ticks v"
    by (rule or_input_same_stdin[OF assms(2) assms(8)])
  obtain v2 where v2: "or_input (arg_type argv) ''Enter content type(post/note): '' v1 = (Inr ct, v2)"
    "stdin v2 = stdin w2" "fs v2 = fs v1" "clock v2 = clock v1" "ticks v2 = ticks v1"
    by (rule or_input_same_stdin[OF assms(3) v1(2)])
  let ?v3 = "v2\<lparr>ticks := Suc (ticks v)\<rparr>"
  have v3: "fs ?v3 = fs (created ct d ?t y m ?w3)" "clock ?v3 = clock v" "ticks ?v3 = Suc (ticks v)"
    using v1 v2 assms(7) c(1) by simp_all
  have "main argv v = init_content ?t y m ct content_types_to_dir ?v3"
    unfolding main_reaches_init_content[OF c(3) v1(1) c(2) v2(1) table_in_content_types[OF assms(4)]]
      assms(9,10) ..
  also have "\<dots> = (Inr (), created ct d ?t y m ?v3)"
  proof (rule init_content_succeeds[OF assms(4)])
    show "path_exists (fs ?v3) (base_dir d)"
      unfolding v3(1) using c(4) w3(1) by (intro created_path_exists) simp
    show "entry_free (fs ?v3) d ?t y m"
      unfolding v3(1) using c(5) w3(1) by (intro created_entry_free) simp
  qed
  finally have run: "main argv v = (Inr (), created ct d ?t y m ?v3)" .
  have fsw': "fs w' = fs ?v3"
    using v3(1) c(1) by simp
  have d: "dirs (fs (created ct d ?t y m ?v3)) = dirs (fs w')"
    unfolding fsw' by (auto simp: created_fs v3(1))
  have f1: "files (fs w') (index_file_path d ?t y m) =
      Some (frontmatter ?t (strftime_Ymd (clock w (Suc (ticks w)))) ct (slug ?t))"
    unfolding c(1) by (simp add: created_fs w3)
  have f2: "files (fs (created ct d ?t y m ?v3)) =
      (files (fs w'))(index_file_path d ?t y m \<mapsto>
         frontmatter ?t (strftime_Ymd (clock v (Suc (ticks v)))) ct (slug ?t))"
    unfolding fsw' by (simp only: created_fs v3(2,3))
  from run d f1 f2 show ?thesis
    by simp
qed

text \<open>
  C6. With a title, a content type, the base directory in place and nothing in the way of
  the entry, the run goes through, and a second run with the same arguments, the same lines
  on standard input and the same year and month goes through as well. The second run
  leaves the directories as the first run left them, and the index file, which held the
  frontmatter of the first run, holds exactly the frontmatter of the second run; no other
  file changes.
\<close>

theorem rerun_overwrites:
  assumes "parse_args content_types argv = Inr argv"
    and "or_input (arg_title argv) ''Enter working title: '' w = (Inr raw, w1)"
    and "strip raw \<noteq> []"
    and "or_input (arg_type argv) ''Enter content type(post/note): '' w1 = (Inr ct, w2)"
    and "map_of content_types_to_dir ct = Some d"
    and "y = int_or (arg_year argv) (int (dt_year (clock w (ticks w))))"
    and "m = int_or (arg_month argv) (int (dt_month (clock w (ticks w))))"
    and "path_exists (fs w) (base_dir d)"
    and "entry_free (fs w) d (strip raw) y m"
    and "w' = snd (main argv w)"
    and "fs v = fs w'" and "stdin v = stdin w"
    and "int_or (arg_year argv) (int (dt_year (clock v (ticks v)))) = y"
    and "int_or (arg_month argv) (int (dt_month (clock v (ticks v)))) = m"
  shows "fst (main argv w) = Inr ()
       \<and> fst (main argv v) = Inr ()
       \<and> dirs (fs (snd (main argv v))) = dirs (fs w')
       \<and> files (fs w') (index_file_path d (strip raw) y m) =
           Some (frontmatter (strip raw) (strftime_Ymd (clock w (Suc (ticks w)))) ct (slug (strip raw)))
       \<and> files (fs (snd (main argv v))) =
           (files (fs w'))(index_file_path d (strip raw) y m \<mapsto>
              frontmatter (strip raw) (strftime_Ymd (clock v (Suc (ticks v)))) ct (slug (strip raw)))"
proof -
  let ?w3 = "w2\<lparr>ticks := Suc (ticks w)\<rparr>"
  have fs: "fs ?w3 = fs w"
    using or_input_frame[OF assms(2)] or_input_frame[OF assms(4)] by simp
  have "main argv w = init_content (strip raw) y m ct content_types_to_dir ?w3"
    unfolding main_reaches_init_content[OF assms(1-4) table_in_content_types[OF assms(5)]]
      assms(6,7) ..
  also have "\<dots> = (Inr (), created ct d (strip raw) y m ?w3)"
    using assms(8,9) by (intro init_content_succeeds[OF assms(5)]) (simp_all add: fs)
  finally have "main argv w = (Inr (), w')"
    using assms(10) by simp
  from this rerun_after_success[OF this assms(2,4,5,6,7,11,12,13,14)] show ?thesis
    by simp
qed

theorem rerun_overwrites_witness:
  "fst (main example_args example_world) = Inr ()
   \<and> fst (main example_args (snd (main example_args example_world))) = Inr ()
   \<and> dirs (fs (snd (main example_args (snd (main example_args example_world))))) =
       {''content'', ''content/posts'', ''content/posts/2024_03_my_post''}
   \<and> files (fs (snd (main example_args (snd (main example_args example_world)))))
         ''content/posts/2024_03_my_post/index.md'' =
       Some (frontmatter ''My Post'' ''2026-11-04'' ''post'' ''my-post'')"
proof -
  let ?w' = "snd (main example_args example_world)"
  have w': "?w' = created ''post'' ''posts'' ''My Post'' 2024 3 (example_world\<lparr>ticks := Suc 0\<rparr>)"
    by (simp add: example_main)
  have s: "strip ''My Post'' \<noteq> []"
    by (simp add: example_strip)
  have b: "path_exists (fs example_world) (base_dir ''posts'')"
    by (simp add: path_exists_def base_dir_def example_world_def example_fs_def)
  have f: "entry_free (fs example_world) ''posts'' (strip ''My Post'') 2024 3"
    by (simp add: example_world_def example_entry_free)
  have st: "stdin ?w' = stdin example_world"
    unfolding w' by (simp add: created_def)
  have y2: "int_or (arg_year example_args) (int (dt_year (clock ?w' (ticks ?w')))) = 2024"
    and m2: "int_or (arg_month example_args) (int (dt_month (clock ?w' (ticks ?w')))) = 3"
    by (simp_all add: int_or_def example_args_def)
  have d: "dirs (fs ?w') = {''content'', ''content/posts'', ''content/posts/2024_03_my_post''}"
    unfolding w' example_created_dirs example_dir_name using example_ancestors by auto
  have dt: "strftime_Ymd (clock ?w' (Suc (ticks ?w'))) = ''2026-11-04''"
    unfolding w' by (simp add: created_def example_world_def example_date)
  note r = rerun_overwrites[OF example_parse example_or_input_title s example_or_input_type
      example_table example_year_month b f refl refl st y2 m2,
      unfolded example_strip example_index_file_path example_slug dt d]
  from r have 0: "fst (main example_args example_world) = Inr ()"
    and 1: "fst (main example_args ?w') = Inr ()"
    and 2: "dirs (fs (snd (main example_args ?w'))) =
      {''content'', ''content/posts'', ''content/posts/2024_03_my_post''}"
    and 4: "files (fs (snd (main example_args ?w'))) =
      (files (fs ?w'))(''content/posts/2024_03_my_post/index.md'' \<mapsto>
         frontmatter ''My Post'' ''2026-11-04'' ''post'' ''my-post'')"
    by blast+
  from 4 have "files (fs (snd (main example_args ?w'))) ''content/posts/2024_03_my_post/index.md'' =
      Some (frontmatter ''My Post'' ''2026-11-04'' ''post'' ''my-post'')"
    by simp
  with 0 1 2 show ?thesis by (intro conjI)
qed

end
